theory Spec2Isabelle
  imports Main
begin

section \<open>JavaScript strings and promises\<close>

text \<open>
  Strings are lists of characters. \<open>String.prototype.includes\<close>, \<open>startsWith\<close> and
  \<open>trim\<close> are written out; \<open>s.slice(n)\<close> for \<open>n \<ge> 0\<close> is \<open>drop n s\<close>. The characters that
  \<open>trim\<close> removes are the white space and line terminators of ECMAScript that fit into
  one byte. \<open>show_int\<close> is the decimal form that a template literal gives an integer.
\<close>

fun str_includes :: "string \<Rightarrow> string \<Rightarrow> bool" where
  "str_includes [] sub = (sub = [])"
| "str_includes (c # cs) sub = (take (length sub) (c # cs) = sub \<or> str_includes cs sub)"

definition startsWith :: "string \<Rightarrow> string \<Rightarrow> bool" where
  "startsWith s p = (take (length p) s = p)"

definition isWhiteSpace :: "char \<Rightarrow> bool" where
  "isWhiteSpace c =
     (c \<in> set [CHR 0x09, CHR 0x0A, CHR 0x0B, CHR 0x0C, CHR 0x0D, CHR 0x20, CHR 0xA0])"

definition trim :: "string \<Rightarrow> string" where
  "trim s = rev (dropWhile isWhiteSpace (rev (dropWhile isWhiteSpace s)))"

fun show_nat :: "nat \<Rightarrow> string" where
  "show_nat n =
     (if n < 10 then [''0123456789'' ! n]
      else show_nat (n div 10) @ [''0123456789'' ! (n mod 10)])"

declare show_nat.simps [simp del]

definition show_int :: "int \<Rightarrow> string" where
  "show_int i = (if i < 0 then CHR ''-'' # show_nat (nat (- i)) else show_nat (nat i))"

text \<open>
  An awaited promise either fulfils, rejects with the message of its error, or is still
  pending when a timer set beside it fires. \<open>withTimeout\<close> (src/utils/timing.ts) races a
  promise against such a timer: \<open>Promise.race([promise, timeout(ms, message)])\<close>.
\<close>

datatype 'a promise = Fulfilled 'a | Rejected string | Pending

definition withTimeout :: "'a promise \<Rightarrow> int \<Rightarrow> string \<Rightarrow> string + 'a" where
  "withTimeout p ms message =
     (case p of
        Fulfilled v \<Rightarrow> Inr v
      | Rejected e \<Rightarrow> Inl e
      | Pending \<Rightarrow>
          Inl (if message \<noteq> [] then message
               else ''Operation timed out after '' @ show_int ms @ ''ms''))"

section \<open>Rate limiter (src/api/rate-limiter.ts)\<close>

text \<open>
  Timestamps (\<open>Date.now()\<close>) and counters are JavaScript numbers holding integers; they are
  modelled as \<open>int\<close>. The store is a \<open>Map<string, RateLimitEntry>\<close> that is only read and
  written by key in \<open>isAllowed\<close>, hence a partial map. The clock value read by
  \<open>Date.now()\<close> is an argument of the model.
\<close>

record RateLimitEntry =
  count :: int
  windowStart :: int

record RateLimiter =
  store :: "string \<rightharpoonup> RateLimitEntry"
  windowMs :: int
  maxRequests :: int
  enabled :: bool

record AllowResult =
  allowed :: bool
  remaining :: int
  resetAt :: int

definition isAllowed :: "int \<Rightarrow> string \<Rightarrow> RateLimiter \<Rightarrow> AllowResult \<times> RateLimiter" where
  "isAllowed now key rl =
     (if \<not> enabled rl then
        (\<lparr>allowed = True, remaining = maxRequests rl, resetAt = 0\<rparr>, rl)
      else
        (case store rl key of
           None \<Rightarrow>
             (\<lparr>allowed = True, remaining = maxRequests rl - 1, resetAt = now + windowMs rl\<rparr>,
              rl\<lparr>store := (store rl)(key \<mapsto> \<lparr>count = 1, windowStart = now\<rparr>)\<rparr>)
         | Some entry \<Rightarrow>
             if now - windowStart entry \<ge> windowMs rl then
               (\<lparr>allowed = True, remaining = maxRequests rl - 1, resetAt = now + windowMs rl\<rparr>,
                rl\<lparr>store := (store rl)(key \<mapsto> \<lparr>count = 1, windowStart = now\<rparr>)\<rparr>)
             else if count entry \<ge> maxRequests rl then
               (\<lparr>allowed = False, remaining = 0, resetAt = windowStart entry + windowMs rl\<rparr>, rl)
             else
               (\<lparr>allowed = True, remaining = maxRequests rl - (count entry + 1),
                 resetAt = windowStart entry + windowMs rl\<rparr>,
                rl\<lparr>store := (store rl)(key \<mapsto> entry\<lparr>count := count entry + 1\<rparr>)\<rparr>)))"

text \<open>
  A client session: \<open>isAllowed\<close> called for the given keys at the given clock readings, one
  call after the other on the same limiter; the result of every call is kept with its key.
\<close>

fun isAllowed_calls ::
  "RateLimiter \<Rightarrow> (int \<times> string) list \<Rightarrow> (string \<times> AllowResult) list \<times> RateLimiter" where
  "isAllowed_calls rl [] = ([], rl)"
| "isAllowed_calls rl ((now, key) # cs) =
     (case isAllowed now key rl of
        (r, rl') \<Rightarrow> (case isAllowed_calls rl' cs of (rs, rl'') \<Rightarrow> ((key, r) # rs, rl'')))"

definition allowed_for :: "string \<Rightarrow> (string \<times> AllowResult) list \<Rightarrow> nat" where
  "allowed_for key rs = length (filter (\<lambda>(k, r). k = key \<and> allowed r) rs)"

text \<open>The first branch of \<open>isAllowed\<close>: the key has no entry, or its window has run out.\<close>

definition opensWindow :: "int \<Rightarrow> string \<Rightarrow> RateLimiter \<Rightarrow> bool" where
  "opensWindow now key rl =
     (case store rl key of None \<Rightarrow> True | Some entry \<Rightarrow> now - windowStart entry \<ge> windowMs rl)"

text \<open>Every call for \<open>key\<close> in \<open>cs\<close> falls into the window that started at \<open>t0\<close>.\<close>

definition inWindow :: "RateLimiter \<Rightarrow> int \<Rightarrow> string \<Rightarrow> (int \<times> string) list \<Rightarrow> bool" where
  "inWindow rl t0 key cs = list_all (\<lambda>(t, k). k \<noteq> key \<or> t - t0 < windowMs rl) cs"

section \<open>Request and response types (types/index.ts)\<close>

datatype WaitUntil = load | domcontentloaded | networkidle | commit

record ScrollConfig =
  scroll_enabled :: bool
  max_scrolls :: int
  delay_ms :: int

record RenderConfig =
  wait_until :: WaitUntil
  timeout_ms :: int
  javascript :: bool
  scroll :: ScrollConfig
  wait_for :: "string option"
  js_code :: "string list option"

record ViewportConfig =
  width :: int
  height :: int

record BrowserConfig =
  user_agent :: "string option"
  viewport :: ViewportConfig
  browser_locale :: string
  timezone :: string

record ProxyConfig =
  server :: string
  username :: "string option"
  password :: "string option"
  rotate :: "bool option"

record DebugConfig =
  screenshot :: bool
  har :: bool

record RenderRequest =
  rq_url :: string
  rq_render :: RenderConfig
  rq_browser :: "BrowserConfig option"
  rq_proxy :: "ProxyConfig option"
  rq_debug :: "DebugConfig option"

record RenderContent =
  html :: string
  content_screenshot :: "string option"
  content_har :: "string option"

record RenderMeta =
  js_rendered :: bool
  proxy_used :: bool
  captcha_detected :: bool
  blocked :: bool
  http_status :: int
  load_time_ms :: int
  meta_final_url :: string
  page_title :: "string option"

record RenderError =
  code :: string
  message :: string
  details :: "string option"

record RenderResponse =
  success :: bool
  request_id :: string
  final_url :: string
  content :: "RenderContent option"
  meta :: "RenderMeta option"
  errors :: "RenderError list option"
  timestamp :: string

section \<open>The page as the engine presents it\<close>

text \<open>
  The browser engine is outside the repository. A page is modelled by what its awaited
  calls do during one render: \<open>route\<close> is the error of \<open>page.context().route\<close> if it
  throws; \<open>goto\<close> is the promise of \<open>page.goto(url, {waitUntil, timeout})\<close>; \<open>page_waitFor\<close>
  is the promise of \<open>page.waitForSelector\<close> or \<open>page.waitForFunction\<close>, by the call made;
  \<open>stability_error\<close> and \<open>scroll_error\<close> are the errors that \<open>waitForStability\<close> and
  \<open>performScroll\<close> throw when one of their \<open>page.evaluate\<close> calls fails; \<open>captcha\<close> and
  \<open>block\<close> are what \<open>detectCaptcha\<close> and \<open>detectBlock\<close> find (both catch every error);
  \<open>page_content\<close>, \<open>title\<close> and \<open>page_screenshot\<close> are \<open>page.content()\<close>, \<open>page.title()\<close>
  (the empty string when it throws, as \<open>getPageTitle\<close> returns) and the base64 text of
  \<open>page.screenshot\<close>.
\<close>

record Response =
  status :: int

datatype WaitCall =
  WaitForSelector string string int
| WaitForFunction string int

record Page =
  route :: "string option"
  goto :: "string \<Rightarrow> WaitUntil \<Rightarrow> int \<Rightarrow> Response option promise"
  page_url :: string
  page_waitFor :: "WaitCall \<Rightarrow> unit promise"
  stability_error :: "string option"
  scroll_error :: "string option"
  captcha :: bool
  block :: "Response option \<Rightarrow> bool"
  page_content :: "string + string"
  title :: string
  page_screenshot :: "string + string"

section \<open>Page loader (src/renderer/pageLoader.ts)\<close>

record NavigationResult =
  nav_success :: bool
  response :: "Response option"
  finalUrl :: string
  httpStatus :: int
  loadTimeMs :: int
  nav_error :: "string option"

definition mapWaitUntil :: "WaitUntil \<Rightarrow> WaitUntil" where
  "mapWaitUntil waitUntil =
     (case waitUntil of load \<Rightarrow> load | domcontentloaded \<Rightarrow> domcontentloaded
      | networkidle \<Rightarrow> networkidle | commit \<Rightarrow> commit)"

text \<open>
  \<open>loadPage\<close>. The argument \<open>ms\<close> is the elapsed time that \<open>performance.now()\<close> measures.
  The route interceptor is installed outside the \<open>try\<close>, so its error leaves \<open>loadPage\<close>
  (\<open>Inl\<close>); every error of the navigation is turned into a result.
\<close>

definition loadPage :: "Page \<Rightarrow> int \<Rightarrow> string \<Rightarrow> RenderConfig \<Rightarrow> string + NavigationResult" where
  "loadPage page ms url config =
     (case (if \<not> javascript config then route page else None) of
        Some e \<Rightarrow> Inl e
      | None \<Rightarrow>
          (case withTimeout
                  (goto page url (mapWaitUntil (wait_until config)) (timeout_ms config))
                  (timeout_ms config + 5000)
                  (''Navigation timeout after '' @ show_int (timeout_ms config) @ ''ms'') of
             Inr None \<Rightarrow>
               Inr \<lparr>nav_success = True, response = None, finalUrl = page_url page,
                    httpStatus = 200, loadTimeMs = ms, nav_error = None\<rparr>
           | Inr (Some r) \<Rightarrow>
               Inr \<lparr>nav_success = True, response = Some r, finalUrl = page_url page,
                    httpStatus = status r, loadTimeMs = ms, nav_error = None\<rparr>
           | Inl errorMessage \<Rightarrow>
               if str_includes errorMessage ''timeout'' \<or> str_includes errorMessage ''Timeout'' then
                 Inr \<lparr>nav_success = False, response = None,
                      finalUrl = (if page_url page \<noteq> [] then page_url page else url),
                      httpStatus = 0, loadTimeMs = ms,
                      nav_error = Some (''Navigation timeout: '' @ show_int (timeout_ms config)
                                         @ ''ms exceeded'')\<rparr>
               else if str_includes errorMessage ''net::'' \<or> str_includes errorMessage ''ERR_'' then
                 Inr \<lparr>nav_success = False, response = None, finalUrl = url,
                      httpStatus = 0, loadTimeMs = ms,
                      nav_error = Some (''Network error: '' @ errorMessage)\<rparr>
               else
                 Inr \<lparr>nav_success = False, response = None, finalUrl = url,
                      httpStatus = 0, loadTimeMs = ms, nav_error = Some errorMessage\<rparr>))"

section \<open>Wait conditions (src/utils/waitConditions.ts)\<close>

record WaitResult =
  wait_success :: bool
  wait_error :: "string option"
  durationMs :: int

text \<open>
  \<open>waitCallFor\<close> is the engine call that \<open>executeWaitFor\<close> makes for a \<open>wait_for\<close> value
  and the message of the timer raced against it; \<open>executeWaitFor\<close> awaits that call under
  \<open>withTimeout\<close> with the same \<open>timeoutMs\<close> and catches every error.
\<close>

definition waitCallFor :: "string \<Rightarrow> int \<Rightarrow> WaitCall \<times> string" where
  "waitCallFor waitFor timeoutMs =
     (if startsWith waitFor ''css:'' then
        (WaitForSelector (trim (drop 4 waitFor)) ''attached'' timeoutMs,
         ''CSS wait timeout for selector: '' @ trim (drop 4 waitFor))
      else if startsWith waitFor ''js:'' then
        (WaitForFunction (trim (drop 3 waitFor)) timeoutMs, ''JS wait condition timeout'')
      else
        (WaitForSelector waitFor ''attached'' timeoutMs,
         ''Wait timeout for selector: '' @ waitFor))"

definition executeWaitFor :: "Page \<Rightarrow> int \<Rightarrow> string \<Rightarrow> int \<Rightarrow> WaitResult" where
  "executeWaitFor page ms waitFor timeoutMs =
     (case waitCallFor waitFor timeoutMs of
        (call, msg) \<Rightarrow>
          (case withTimeout (page_waitFor page call) timeoutMs msg of
             Inr _ \<Rightarrow> \<lparr>wait_success = True, wait_error = None, durationMs = ms\<rparr>
           | Inl e \<Rightarrow> \<lparr>wait_success = False, wait_error = Some e, durationMs = ms\<rparr>))"

section \<open>Proxy manager (src/proxy/proxyManager.ts)\<close>

text \<open>
  \<open>new URL(...)\<close> is the platform's parser, not code of the repository: it is the argument
  \<open>newURL\<close>, \<open>None\<close> where the constructor throws. A \<open>URL\<close> holds the five properties
  that \<open>parseProxy\<close> reads, each a string as the platform returns it (\<open>protocol\<close> with its
  colon, \<open>port\<close> empty when the URL has none).
\<close>

record URL =
  url_protocol :: string
  url_hostname :: string
  url_port :: string
  url_username :: string
  url_password :: string

record ParsedProxy =
  parsed_server :: string
  parsed_protocol :: string
  parsed_host :: string
  parsed_port :: int
  parsed_username :: "string option"
  parsed_password :: "string option"

record ProxyValidationResult =
  valid :: bool
  validation_error :: "string option"
  parsed :: "ParsedProxy option"

text \<open>
  \<open>parseInt(s, 10)\<close>: leading white space, an optional sign, then the longest run of
  decimal digits; \<open>None\<close> is \<open>NaN\<close>. \<open>truthy\<close> and \<open>js_or\<close> are the truth value of an
  optional string and the operator \<open>||\<close> on optional strings.
\<close>

definition isDigit :: "char \<Rightarrow> bool" where
  "isDigit c = (c \<in> set ''0123456789'')"

definition digitsValue :: "string \<Rightarrow> int" where
  "digitsValue ds = foldl (\<lambda>a c. 10 * a + (int (of_char c) - 48)) 0 ds"

definition parseInt10 :: "string \<Rightarrow> int option" where
  "parseInt10 s =
     (let t = dropWhile isWhiteSpace s;
          neg = (t \<noteq> [] \<and> hd t = CHR ''-'');
          r = (if t \<noteq> [] \<and> (hd t = CHR ''-'' \<or> hd t = CHR ''+'') then tl t else t);
          ds = takeWhile isDigit r
      in if ds = [] then None else Some (if neg then - digitsValue ds else digitsValue ds))"

definition truthy :: "string option \<Rightarrow> bool" where
  "truthy v = (case v of None \<Rightarrow> False | Some x \<Rightarrow> x \<noteq> [])"

definition js_or :: "string option \<Rightarrow> string option \<Rightarrow> string option" where
  "js_or a b = (if truthy a then a else b)"

definition invalidProxy :: "string \<Rightarrow> ProxyValidationResult" where
  "invalidProxy e = \<lparr>valid = False, validation_error = Some e, parsed = None\<rparr>"

text \<open>The string that \<open>parseProxy\<close> hands to the URL parser.\<close>

definition serverWithProtocol :: "string \<Rightarrow> string" where
  "serverWithProtocol s = (if str_includes s ''://'' then s else ''http://'' @ s)"

definition parseProxy :: "(string \<Rightarrow> URL option) \<Rightarrow> ProxyConfig \<Rightarrow> ProxyValidationResult" where
  "parseProxy newURL config =
     (case newURL (serverWithProtocol (server config)) of
           None \<Rightarrow> invalidProxy (''Invalid proxy server URL: '' @ server config)
         | Some url \<Rightarrow>
             (let protocol = remove1 CHR '':'' (url_protocol url) in
              if protocol \<notin> set [''http'', ''https'', ''socks5''] then
                invalidProxy (''Unsupported proxy protocol: '' @ protocol
                              @ ''. Use http, https, or socks5.'')
              else
                (let host = url_hostname url;
                     port = (case parseInt10 (url_port url) of
                               Some n \<Rightarrow> if n \<noteq> 0 then n
                                         else if protocol = ''https'' then 443 else 8080
                             | None \<Rightarrow> if protocol = ''https'' then 443 else 8080)
                 in if host = [] then invalidProxy ''Proxy host is required''
                    else
                      (let p = \<lparr>parsed_server = protocol @ ''://'' @ host @ '':'' @ show_int port,
                                parsed_protocol = protocol,
                                parsed_host = host,
                                parsed_port = port,
                                parsed_username =
                                  js_or (js_or (username config) (Some (url_username url))) None,
                                parsed_password =
                                  js_or (js_or (password config) (Some (url_password url))) None\<rparr>
                       in if (truthy (parsed_username p) \<and> \<not> truthy (parsed_password p))
                             \<or> (\<not> truthy (parsed_username p) \<and> truthy (parsed_password p))
                          then invalidProxy
                            ''Both username and password must be provided for authenticated proxies''
                          else \<lparr>valid = True, validation_error = None, parsed = Some p\<rparr>))))"

record PlaywrightProxy =
  pw_server :: string
  pw_username :: "string option"
  pw_password :: "string option"

definition toPlaywrightProxy ::
  "(string \<Rightarrow> URL option) \<Rightarrow> ProxyConfig \<Rightarrow> PlaywrightProxy option" where
  "toPlaywrightProxy newURL config =
     (let result = parseProxy newURL config in
      if \<not> valid result then None
      else case parsed result of
             None \<Rightarrow> None
           | Some p \<Rightarrow>
               if truthy (parsed_username p) \<and> truthy (parsed_password p)
               then Some \<lparr>pw_server = parsed_server p, pw_username = parsed_username p,
                          pw_password = parsed_password p\<rparr>
               else Some \<lparr>pw_server = parsed_server p, pw_username = None,
                          pw_password = None\<rparr>)"

definition hasProxy :: "ProxyConfig option \<Rightarrow> bool" where
  "hasProxy config =
     (case config of
        None \<Rightarrow> False
      | Some c \<Rightarrow> server c \<noteq> [] \<and> length (trim (server c)) > 0)"

section \<open>Context factory (src/browser/contextFactory.ts)\<close>

text \<open>
  The engine's part in \<open>createContext\<close>: \<open>newContext\<close> is the error that
  \<open>browser.newContext(options)\<close> throws for the given options, if any; likewise
  \<open>applyFingerprint_error\<close>, \<open>newPage\<close> and \<open>applyPageStealth_error\<close>; \<open>randomUserAgent\<close>
  is the agent that \<open>getRandomUserAgent()\<close> draws. A browser context is identified with the
  options it was created from, which is all that the repository's code decides about it. Of
  the object that \<open>getFingerprintOptions\<close> builds, the model keeps the user agent, viewport,
  locale and time zone; the remaining entries are constants or follow from these.
\<close>

record NewContextOptions =
  userAgent :: string
  context_viewport :: ViewportConfig
  context_locale :: string
  timezoneId :: string
  proxy :: "PlaywrightProxy option"

record Engine =
  newURL :: "string \<Rightarrow> URL option"
  randomUserAgent :: string
  newContext :: "NewContextOptions \<Rightarrow> string option"
  applyFingerprint_error :: "string option"
  newPage :: "string + Page"
  applyPageStealth_error :: "string option"

record ContextOptions =
  options_browser :: "BrowserConfig option"
  options_proxy :: "ProxyConfig option"

record CreatedContext =
  created_context :: NewContextOptions
  created_page :: Page
  proxyUsed :: bool

definition defaults_browser :: BrowserConfig where
  "defaults_browser =
     \<lparr>user_agent = None, viewport = \<lparr>width = 1366, height = 768\<rparr>,
      browser_locale = ''en-US'', timezone = ''America/New_York''\<rparr>"

definition getFingerprintOptions :: "Engine \<Rightarrow> BrowserConfig \<Rightarrow> NewContextOptions" where
  "getFingerprintOptions eng config =
     \<lparr>userAgent = (case user_agent config of
                     None \<Rightarrow> randomUserAgent eng
                   | Some ua \<Rightarrow> if ua \<noteq> [] then ua else randomUserAgent eng),
      context_viewport = viewport config,
      context_locale = (if browser_locale config \<noteq> [] then browser_locale config else ''en-US''),
      timezoneId = (if timezone config \<noteq> [] then timezone config else ''America/New_York''),
      proxy = None\<rparr>"

definition createContext :: "Engine \<Rightarrow> ContextOptions \<Rightarrow> string + CreatedContext" where
  "createContext eng opts =
     (let merged0 = (case options_browser opts of None \<Rightarrow> defaults_browser | Some b \<Rightarrow> b);
          merged = (if \<not> truthy (user_agent merged0)
                    then merged0\<lparr>user_agent := Some (randomUserAgent eng)\<rparr> else merged0);
          fingerprintOptions = getFingerprintOptions eng merged;
          used = hasProxy (options_proxy opts);
          playwrightProxy =
            (case options_proxy opts of
               None \<Rightarrow> None
             | Some pc \<Rightarrow> if used then toPlaywrightProxy (newURL eng) pc else None);
          contextOptions = fingerprintOptions\<lparr>proxy := playwrightProxy\<rparr>
      in case newContext eng contextOptions of
           Some e \<Rightarrow> Inl e
         | None \<Rightarrow>
             (case applyFingerprint_error eng of
                Some e \<Rightarrow> Inl e
              | None \<Rightarrow>
                  (case newPage eng of
                     Inl e \<Rightarrow> Inl e
                   | Inr pg \<Rightarrow>
                       (case applyPageStealth_error eng of
                          Some e \<Rightarrow> Inl e
                        | None \<Rightarrow>
                            Inr \<lparr>created_context = contextOptions, created_page = pg,
                                 proxyUsed = used\<rparr>))))"

section \<open>Render worker (src/renderer/renderWorker.ts)\<close>

text \<open>
  A lease is what \<open>pool.acquire\<close> resolves to: the created context with the identifier of
  the browser that owns it (\<open>leaseOf\<close> is the object spread
  \<open>{...createdContext, cleanup, browserId}\<close> of \<open>createContextFromInstance\<close>).
  \<open>AcquireOptions\<close> are the options handed to the pool.
\<close>

record Lease = CreatedContext +
  browserId :: string

definition leaseOf :: "CreatedContext \<Rightarrow> string \<Rightarrow> Lease" where
  "leaseOf createdContext bid =
     \<lparr>created_context = created_context createdContext,
      created_page = created_page createdContext,
      proxyUsed = proxyUsed createdContext,
      browserId = bid\<rparr>"

record AcquireOptions =
  acquire_browser :: "BrowserConfig option"
  acquire_proxy :: "ProxyConfig option"
  acquire_timeout :: "int option"

text \<open>
  The clock readings of one render (\<open>performance.now()\<close> differences, already rounded) and
  the text of \<open>new Date().toISOString()\<close>.
\<close>

record Timing =
  load_ms :: int
  wait_ms :: int
  total_ms :: int
  stamp :: string

definition buildCompleteRequest :: "RenderRequest \<Rightarrow> RenderRequest" where
  "buildCompleteRequest request =
     request\<lparr>rq_browser := Some (case rq_browser request of
                                   None \<Rightarrow> defaults_browser | Some b \<Rightarrow> b),
             rq_debug := Some (case rq_debug request of
                                 None \<Rightarrow> \<lparr>screenshot = False, har = False\<rparr> | Some d \<Rightarrow> d)\<rparr>"

definition createErrorResponse ::
  "string \<Rightarrow> string \<Rightarrow> string \<Rightarrow> string \<Rightarrow> string option \<Rightarrow> RenderResponse" where
  "createErrorResponse requestId ts c msg det =
     \<lparr>success = False, request_id = requestId, final_url = [], content = None, meta = None,
      errors = Some [\<lparr>code = c, message = msg, details = det\<rparr>], timestamp = ts\<rparr>"

text \<open>
  \<open>captureDebugArtifacts\<close> returns the screenshot and the HAR note, with the line it
  writes to the console when the screenshot fails.
\<close>

definition captureDebugArtifacts ::
  "Page \<Rightarrow> DebugConfig option \<Rightarrow> (string option \<times> string option) \<times> string list" where
  "captureDebugArtifacts pg dbg =
     (let shot = (if (case dbg of None \<Rightarrow> False | Some d \<Rightarrow> screenshot d) then
                    (case page_screenshot pg of
                       Inr b \<Rightarrow> (Some b, [])
                     | Inl e \<Rightarrow> (None, [''[RenderWorker] Screenshot capture failed: '' @ e]))
                  else (None, []));
          note = (if (case dbg of None \<Rightarrow> False | Some d \<Rightarrow> har d)
                  then Some ''HAR capture requires context-level recording'' else None)
      in ((fst shot, note), snd shot))"

text \<open>
  The stages of the inner \<open>try\<close> of \<open>render\<close> after the navigation, in the order of the
  source. \<open>stabilize\<close> and \<open>scrollStage\<close> give the error thrown by \<open>waitForStability\<close>
  (run for \<open>networkidle\<close> only) and by \<open>performScroll\<close> (run when scrolling is enabled), if
  any. \<open>executeJsCode\<close> catches every error and its result is not used, so it leaves no
  trace in the model. \<open>waitStage\<close> runs \<open>executeWaitFor\<close> when \<open>wait_for\<close> is a non-empty
  string, with the request's \<open>timeout_ms\<close>; its result is used for the console line alone.
\<close>

definition stabilize :: "Page \<Rightarrow> RenderConfig \<Rightarrow> string option" where
  "stabilize pg renderConfig =
     (if wait_until renderConfig = networkidle then stability_error pg else None)"

definition waitStage :: "Page \<Rightarrow> Timing \<Rightarrow> RenderConfig \<Rightarrow> string list" where
  "waitStage pg tm renderConfig =
     (case wait_for renderConfig of
        None \<Rightarrow> []
      | Some w \<Rightarrow>
          if w = [] then []
          else (let waitResult = executeWaitFor pg (wait_ms tm) w (timeout_ms renderConfig)
                in if \<not> wait_success waitResult then
                     [''[RenderWorker] wait_for condition failed: ''
                        @ (case wait_error waitResult of None \<Rightarrow> ''undefined'' | Some e \<Rightarrow> e)]
                   else []))"

definition scrollStage :: "Page \<Rightarrow> RenderConfig \<Rightarrow> string option" where
  "scrollStage pg renderConfig =
     (if scroll_enabled (scroll renderConfig) then scroll_error pg else None)"

text \<open>The response that \<open>render\<close> assembles when every stage has run.\<close>

definition successResponse ::
  "Timing \<Rightarrow> string \<Rightarrow> RenderConfig \<Rightarrow> Lease \<Rightarrow> NavigationResult \<Rightarrow> string
     \<Rightarrow> string option \<times> string option \<Rightarrow> RenderResponse" where
  "successResponse tm requestId renderConfig lease navigationResult h debugArtifacts =
     \<lparr>success = True,
      request_id = requestId,
      final_url = finalUrl navigationResult,
      content = Some
        \<lparr>html = h,
         content_screenshot =
           (if truthy (fst debugArtifacts) then fst debugArtifacts else None),
         content_har = snd debugArtifacts\<rparr>,
      meta = Some
        \<lparr>js_rendered = javascript renderConfig,
         proxy_used = proxyUsed lease,
         captcha_detected = captcha (created_page lease),
         blocked = block (created_page lease) (response navigationResult),
         http_status = httpStatus navigationResult,
         load_time_ms = total_ms tm,
         meta_final_url = finalUrl navigationResult,
         page_title =
           (if title (created_page lease) \<noteq> [] then Some (title (created_page lease))
            else None)\<rparr>,
      errors = None,
      timestamp = stamp tm\<rparr>"

text \<open>
  The body of the inner \<open>try\<close> of \<open>render\<close>, for the lease acquired: \<open>Inl\<close> is the message
  of an error thrown out of it, \<open>Inr\<close> the response returned, each with the console lines
  written. The \<open>finally\<close> block awaits the lease's \<open>cleanup\<close>, which catches the engine's
  errors and so does not change what the block returns or throws.
\<close>

definition renderPage ::
  "Timing \<Rightarrow> string \<Rightarrow> RenderRequest \<Rightarrow> Lease \<Rightarrow> (string + RenderResponse) \<times> string list" where
  "renderPage tm requestId completeRequest lease =
     (case loadPage (created_page lease) (load_ms tm) (rq_url completeRequest)
             (rq_render completeRequest) of
        Inl e \<Rightarrow> (Inl e, [])
      | Inr navigationResult \<Rightarrow>
          if \<not> nav_success navigationResult then
            (Inr (createErrorResponse requestId (stamp tm) ''NAVIGATION_FAILED''
                    ''Failed to load the page'' (nav_error navigationResult)), [])
          else
            (case stabilize (created_page lease) (rq_render completeRequest) of
               Some e \<Rightarrow> (Inl e, [])
             | None \<Rightarrow>
                 (case scrollStage (created_page lease) (rq_render completeRequest) of
                    Some e \<Rightarrow>
                      (Inl e, waitStage (created_page lease) tm (rq_render completeRequest))
                  | None \<Rightarrow>
                      (case page_content (created_page lease) of
                         Inl e \<Rightarrow>
                           (Inl e, waitStage (created_page lease) tm (rq_render completeRequest))
                       | Inr h \<Rightarrow>
                           (Inr (successResponse tm requestId (rq_render completeRequest) lease
                                   navigationResult h
                                   (fst (captureDebugArtifacts (created_page lease)
                                           (rq_debug completeRequest)))),
                            waitStage (created_page lease) tm (rq_render completeRequest)
                            @ snd (captureDebugArtifacts (created_page lease)
                                     (rq_debug completeRequest)))))))"

definition errorCodeOf :: "string \<Rightarrow> string" where
  "errorCodeOf errorMessage =
     (if str_includes errorMessage ''timeout'' \<or> str_includes errorMessage ''Timeout''
      then ''TIMEOUT''
      else if str_includes errorMessage ''proxy'' \<or> str_includes errorMessage ''Proxy''
      then ''PROXY_ERROR''
      else if str_includes errorMessage ''context'' \<or> str_includes errorMessage ''browser''
      then ''BROWSER_ERROR''
      else ''RENDER_FAILED'')"

text \<open>
  \<open>render\<close>. The argument \<open>acquire\<close> is the promise that \<open>pool.acquire(options)\<close> returns,
  raced here against 35 seconds. Every error, of the acquisition or thrown by the inner
  block, reaches the outer \<open>catch\<close> and is classified by its message.
\<close>

definition render ::
  "(AcquireOptions \<Rightarrow> Lease promise) \<Rightarrow> Timing \<Rightarrow> string \<Rightarrow> RenderRequest
     \<Rightarrow> RenderResponse \<times> string list" where
  "render acquire tm requestId request =
     (let completeRequest = buildCompleteRequest request in
      case withTimeout
             (acquire \<lparr>acquire_browser = rq_browser completeRequest,
                       acquire_proxy = rq_proxy completeRequest,
                       acquire_timeout = Some 30000\<rparr>)
             35000 ''Timeout acquiring browser context'' of
        Inl errorMessage \<Rightarrow>
          (createErrorResponse requestId (stamp tm) (errorCodeOf errorMessage)
             ''Render operation failed'' (Some errorMessage), [])
      | Inr lease \<Rightarrow>
          (case renderPage tm requestId completeRequest lease of
             (Inr r, logs) \<Rightarrow> (r, logs)
           | (Inl errorMessage, logs) \<Rightarrow>
               (createErrorResponse requestId (stamp tm) (errorCodeOf errorMessage)
                  ''Render operation failed'' (Some errorMessage), logs)))"

text \<open>
  \<open>renderWithTimeout\<close> races \<open>render\<close> against \<open>maxTimeoutMs\<close>; \<open>inTime\<close> says that
  \<open>render\<close> settles before that timer fires.
\<close>

definition renderWithTimeout ::
  "(AcquireOptions \<Rightarrow> Lease promise) \<Rightarrow> Timing \<Rightarrow> bool \<Rightarrow> string \<Rightarrow> RenderRequest \<Rightarrow> int
     \<Rightarrow> RenderResponse \<times> string list" where
  "renderWithTimeout acquire tm inTime requestId request maxTimeoutMs =
     (case withTimeout
             (if inTime then Fulfilled (render acquire tm requestId request) else Pending)
             maxTimeoutMs
             (''Total render timeout exceeded: '' @ show_int maxTimeoutMs @ ''ms'') of
        Inr result \<Rightarrow> result
      | Inl e \<Rightarrow>
          (createErrorResponse requestId (stamp tm) ''TOTAL_TIMEOUT''
             ''Total render timeout exceeded'' (Some e), []))"

section \<open>Render controller (handleRender)\<close>

text \<open>
  The reply of \<open>POST /v1/render\<close>: the status code and the body sent. \<open>validateRenderRequest\<close>
  runs the request body through the zod schema; its outcome is the argument \<open>validation\<close>,
  either the validated request or the list of (field, message) pairs. \<open>limitText\<close> is the
  formatted \<open>details\<close> text of the rate-limit error. The rate-limit headers are not part of
  the model. \<open>renderWithTimeout\<close> catches every error, so the \<open>catch\<close> block of the handler
  (status 500, code \<open>INTERNAL_ERROR\<close>) is never entered from it.
\<close>

text \<open>The status code that \<open>handleRender\<close> computes for the result of a render.\<close>

definition statusOf :: "RenderResponse \<Rightarrow> int" where
  "statusOf result =
     (if success result then 200
      else if (case errors result of Some (e # _) \<Rightarrow> code e = ''TIMEOUT'' | _ \<Rightarrow> False)
      then 504 else 500)"

datatype Validation = Validated RenderRequest | Failed "(string \<times> string) list"

record Reply =
  statusCode :: int
  body :: RenderResponse

definition handleRender ::
  "int \<Rightarrow> string \<Rightarrow> RateLimiter \<Rightarrow> Validation \<Rightarrow> (AcquireOptions \<Rightarrow> Lease promise) \<Rightarrow> Timing
     \<Rightarrow> bool \<Rightarrow> string \<Rightarrow> string \<Rightarrow> Reply \<times> RateLimiter" where
  "handleRender now clientIp rateLimiter validation acquire tm inTime requestId limitText =
     (case isAllowed now clientIp rateLimiter of
        (rateLimit, rateLimiter') \<Rightarrow>
          if \<not> allowed rateLimit then
            (\<lparr>statusCode = 429,
              body = createErrorResponse requestId (stamp tm) ''RATE_LIMITED''
                       ''Too many requests. Please slow down.'' (Some limitText)\<rparr>,
             rateLimiter')
          else
            (case validation of
               Failed errs \<Rightarrow>
                 (\<lparr>statusCode = 400,
                   body = \<lparr>success = False, request_id = requestId, final_url = [],
                           content = None, meta = None,
                           errors = Some (map (\<lambda>(field, msg).
                                      \<lparr>code = ''VALIDATION_ERROR'', message = msg,
                                       details = Some (''Field: '' @ field)\<rparr>) errs),
                           timestamp = stamp tm\<rparr>\<rparr>,
                  rateLimiter')
             | Validated renderRequest \<Rightarrow>
                 (let maxTimeout =
                        (if timeout_ms (rq_render renderRequest) \<noteq> 0
                         then timeout_ms (rq_render renderRequest) else 30000) + 30000;
                      result = fst (renderWithTimeout acquire tm inTime requestId renderRequest
                                      maxTimeout)
                  in (\<lparr>statusCode = statusOf result, body = result\<rparr>, rateLimiter'))))"

section \<open>Browser pool (browser/browserPool.ts)\<close>

text \<open>
  The pool's state. \<open>instances\<close> is a \<open>Map\<close> that \<open>findAvailableBrowser\<close> walks in
  insertion order, hence an association list; \<open>contextCounts\<close> is only read and written by
  key, hence a partial map, and its values are JavaScript numbers, hence \<open>int\<close>.
  A queue item holds the \<open>resolve\<close> and \<open>reject\<close> functions of one promise: \<open>promise_id\<close>
  names that promise, \<open>settled\<close> records how each promise was settled, and \<open>timers\<close> lists
  the promises whose timeout is armed. \<open>initialized\<close> says that \<open>initPromise\<close> is set. The
  health-check timer is not part of the model.
\<close>

record BrowserInstance =
  instance_id :: string
  contextCount :: int
  createdAt :: int
  lastUsedAt :: int
  isHealthy :: bool

record QueueItem =
  promise_id :: nat
  item_options :: AcquireOptions

datatype Settlement = ResolvedWith Lease | RejectedWith string

record BrowserPool =
  instances :: "(string \<times> BrowserInstance) list"
  contextCounts :: "string \<rightharpoonup> int"
  queue :: "QueueItem list"
  timers :: "nat list"
  settled :: "(nat \<times> Settlement) list"
  isShuttingDown :: bool
  initialized :: bool
  minBrowsers :: int
  maxBrowsers :: int
  maxContextsPerBrowser :: int

text \<open>
  What the world outside the pool answers during one call: \<open>engine\<close> is the engine as it
  behaves when \<open>createContext\<close> is awaited, given the pool's state at that moment (the state
  that every other caller observes during the await); \<open>clock\<close> is \<open>new Date()\<close>;
  \<open>launched\<close> says that \<open>chromium.launch\<close> succeeds and \<open>fresh_id\<close> is the \<open>uuid()\<close> of
  the instance then made; \<open>initial\<close> gives the same two answers for each of the launches of
  \<open>_initialize\<close>. The awaited calls of one pool method are taken to complete before the
  next method runs.
\<close>

record Env =
  engine :: "BrowserPool \<Rightarrow> Engine"
  clock :: int
  launched :: bool
  fresh_id :: string
  initial :: "nat \<Rightarrow> bool \<times> string"

text \<open>\<open>Map.prototype.set\<close> and \<open>delete\<close> on the association list, and \<open>size\<close>.\<close>

fun map_set :: "'k \<Rightarrow> 'v \<Rightarrow> ('k \<times> 'v) list \<Rightarrow> ('k \<times> 'v) list" where
  "map_set k v [] = [(k, v)]"
| "map_set k v ((k', v') # xs) = (if k' = k then (k, v) # xs else (k', v') # map_set k v xs)"

definition map_delete :: "'k \<Rightarrow> ('k \<times> 'v) list \<Rightarrow> ('k \<times> 'v) list" where
  "map_delete k xs = filter (\<lambda>(k', v). k' \<noteq> k) xs"

definition poolSize :: "BrowserPool \<Rightarrow> int" where
  "poolSize s = int (length (instances s))"

text \<open>\<open>this.contextCounts.get(id) || 0\<close>.\<close>

definition leaseCount :: "BrowserPool \<Rightarrow> string \<Rightarrow> int" where
  "leaseCount s bid = (case contextCounts s bid of None \<Rightarrow> 0 | Some c \<Rightarrow> c)"

text \<open>A promise settles once: \<open>resolve\<close> or \<open>reject\<close> on a settled promise does nothing.\<close>

definition settle :: "nat \<Rightarrow> Settlement \<Rightarrow> BrowserPool \<Rightarrow> BrowserPool" where
  "settle pid outcome s =
     (if pid \<in> set (map fst (settled s)) then s
      else s\<lparr>settled := settled s @ [(pid, outcome)]\<rparr>)"

text \<open>The body of \<open>launchBrowser\<close> after its capacity check.\<close>

definition addBrowser :: "bool \<Rightarrow> string \<Rightarrow> int \<Rightarrow> BrowserPool \<Rightarrow> BrowserInstance option \<times> BrowserPool" where
  "addBrowser ok uid now s =
     (if \<not> ok then (None, s)
      else
        (let inst = \<lparr>instance_id = uid, contextCount = 0, createdAt = now, lastUsedAt = now,
                      isHealthy = True\<rparr>
         in (Some inst,
             s\<lparr>instances := map_set uid inst (instances s),
               contextCounts := (contextCounts s)(uid \<mapsto> 0)\<rparr>)))"

definition launchBrowser :: "Env \<Rightarrow> BrowserPool \<Rightarrow> BrowserInstance option \<times> BrowserPool" where
  "launchBrowser env s =
     (if poolSize s \<ge> maxBrowsers s then (None, s)
      else addBrowser (launched env) (fresh_id env) (clock env) s)"

definition handleBrowserDisconnect :: "Env \<Rightarrow> string \<Rightarrow> BrowserPool \<Rightarrow> BrowserPool" where
  "handleBrowserDisconnect env bid s =
     (let s1 = s\<lparr>instances := map_delete bid (instances s),
                 contextCounts := (contextCounts s)(bid := None)\<rparr>
      in if \<not> isShuttingDown s1 \<and> poolSize s1 < minBrowsers s1
         then snd (launchBrowser env s1) else s1)"

definition findAvailableBrowser :: "BrowserPool \<Rightarrow> BrowserInstance option" where
  "findAvailableBrowser s =
     find (\<lambda>inst. isHealthy inst \<and> leaseCount s (instance_id inst) < maxContextsPerBrowser s)
       (map snd (instances s))"

text \<open>
  \<open>_initialize\<close> starts \<open>minBrowsers\<close> launches at once: each \<open>launchBrowser\<close> makes its
  capacity check before any of them has added an instance, so all of them see the size the
  pool has at that moment. \<open>initialize\<close> runs it once.
\<close>

definition initialize :: "Env \<Rightarrow> BrowserPool \<Rightarrow> BrowserPool" where
  "initialize env s =
     (if initialized s then s
      else
        (if poolSize s \<ge> maxBrowsers s then s
         else fold (\<lambda>i s'. snd (addBrowser (fst (initial env i)) (snd (initial env i))
                                   (clock env) s'))
                [0 ..< nat (minBrowsers s)] s)
        \<lparr>initialized := True\<rparr>)"

text \<open>
  \<open>createContextFromInstance\<close>: the count and \<open>lastUsedAt\<close> are written first, then
  \<open>createContext\<close> is awaited on the engine as it is in that state; an error of
  \<open>createContext\<close> takes the count back and is thrown on (\<open>Inl\<close>).
\<close>

definition touch :: "string \<Rightarrow> int \<Rightarrow> (string \<times> BrowserInstance) list \<Rightarrow> (string \<times> BrowserInstance) list" where
  "touch bid now xs = map (\<lambda>(k, inst). if k = bid then (k, inst\<lparr>lastUsedAt := now\<rparr>) else (k, inst)) xs"

definition reserve :: "Env \<Rightarrow> string \<Rightarrow> BrowserPool \<Rightarrow> BrowserPool" where
  "reserve env bid s =
     s\<lparr>contextCounts := (contextCounts s)(bid \<mapsto> leaseCount s bid + 1),
       instances := touch bid (clock env) (instances s)\<rparr>"

definition decrement :: "string \<Rightarrow> BrowserPool \<Rightarrow> BrowserPool" where
  "decrement bid s = s\<lparr>contextCounts := (contextCounts s)(bid \<mapsto> max 0 (leaseCount s bid - 1))\<rparr>"

definition createContextFromInstance ::
  "Env \<Rightarrow> BrowserInstance \<Rightarrow> AcquireOptions \<Rightarrow> BrowserPool \<Rightarrow> (string + Lease) \<times> BrowserPool" where
  "createContextFromInstance env inst opts s =
     (let s1 = reserve env (instance_id inst) s in
      case createContext (engine env s1)
             \<lparr>options_browser = acquire_browser opts, options_proxy = acquire_proxy opts\<rparr> of
        Inr createdContext \<Rightarrow> (Inr (leaseOf createdContext (instance_id inst)), s1)
      | Inl e \<Rightarrow> (Inl e, decrement (instance_id inst) s1))"

definition waitForAvailable :: "nat \<Rightarrow> AcquireOptions \<Rightarrow> BrowserPool \<Rightarrow> BrowserPool" where
  "waitForAvailable pid opts s =
     s\<lparr>queue := queue s @ [\<lparr>promise_id = pid, item_options = opts\<rparr>],
       timers := timers s @ [pid]\<rparr>"

text \<open>The callback of the timer that \<open>waitForAvailable\<close> arms, when it fires.\<close>

definition timeoutFires :: "nat \<Rightarrow> BrowserPool \<Rightarrow> BrowserPool" where
  "timeoutFires pid s =
     (if pid \<notin> set (timers s) then s
      else settle pid (RejectedWith ''Timeout waiting for available browser'')
             (s\<lparr>queue := filter (\<lambda>q. promise_id q \<noteq> pid) (queue s),
                timers := removeAll pid (timers s)\<rparr>))"

definition processQueue :: "Env \<Rightarrow> BrowserPool \<Rightarrow> BrowserPool" where
  "processQueue env s =
     (case queue s of
        [] \<Rightarrow> s
      | item # rest \<Rightarrow>
          (case findAvailableBrowser s of
             None \<Rightarrow> s
           | Some inst \<Rightarrow>
               (case createContextFromInstance env inst (item_options item)
                       (s\<lparr>queue := rest, timers := removeAll (promise_id item) (timers s)\<rparr>) of
                  (Inr lease, s') \<Rightarrow> settle (promise_id item) (ResolvedWith lease) s'
                | (Inl e, s') \<Rightarrow> settle (promise_id item) (RejectedWith e) s')))"

text \<open>
  The \<open>cleanup\<close> of a lease on browser \<open>bid\<close>, as \<open>createContextFromInstance\<close> overrides it:
  the original cleanup closes page and context and catches their errors, then the count is
  decremented and \<open>processQueue\<close> is called.
\<close>

definition cleanup :: "Env \<Rightarrow> string \<Rightarrow> BrowserPool \<Rightarrow> BrowserPool" where
  "cleanup env bid s = processQueue env (decrement bid s)"

datatype Acquired = Threw string | Leased Lease | Queued nat

text \<open>
  \<open>acquire\<close>; \<open>pid\<close> names the promise that \<open>waitForAvailable\<close> creates when the request
  is queued.
\<close>

definition served :: "(string + Lease) \<times> BrowserPool \<Rightarrow> Acquired \<times> BrowserPool" where
  "served r = (case r of (Inr lease, s) \<Rightarrow> (Leased lease, s) | (Inl e, s) \<Rightarrow> (Threw e, s))"

definition acquire :: "Env \<Rightarrow> nat \<Rightarrow> AcquireOptions \<Rightarrow> BrowserPool \<Rightarrow> Acquired \<times> BrowserPool" where
  "acquire env pid opts s =
     (if isShuttingDown s then (Threw ''Browser pool is shutting down'', s)
      else
        (let s0 = initialize env s in
         case findAvailableBrowser s0 of
           Some inst \<Rightarrow> served (createContextFromInstance env inst opts s0)
         | None \<Rightarrow>
             if poolSize s0 < maxBrowsers s0 then
               (case launchBrowser env s0 of
                  (Some inst, s1) \<Rightarrow> served (createContextFromInstance env inst opts s1)
                | (None, s1) \<Rightarrow> (Queued pid, waitForAvailable pid opts s1))
             else (Queued pid, waitForAvailable pid opts s0)))"

text \<open>
  A history of the pool: calls of \<open>acquire\<close> and calls of the \<open>cleanup\<close> of a lease on a
  browser (the first release of a lease and every repeated one alike), each with what the
  world answers during it.
\<close>

datatype PoolCall = Acquire nat AcquireOptions | Release string

fun poolStep :: "Env \<times> PoolCall \<Rightarrow> BrowserPool \<Rightarrow> BrowserPool" where
  "poolStep (env, Acquire pid opts) s = snd (acquire env pid opts s)"
| "poolStep (env, Release bid) s = cleanup env bid s"

definition poolRun :: "(Env \<times> PoolCall) list \<Rightarrow> BrowserPool \<Rightarrow> BrowserPool" where
  "poolRun calls s = fold poolStep calls s"

definition newPool :: "int \<Rightarrow> int \<Rightarrow> int \<Rightarrow> BrowserPool" where
  "newPool mn mx ctxs =
     \<lparr>instances = [], contextCounts = Map.empty, queue = [], timers = [], settled = [],
      isShuttingDown = False, initialized = False,
      minBrowsers = mn, maxBrowsers = mx, maxContextsPerBrowser = ctxs\<rparr>"

definition countsNonNegative :: "BrowserPool \<Rightarrow> bool" where
  "countsNonNegative s = (\<forall>bid. 0 \<le> leaseCount s bid)"

section \<open>Sample values\<close>

text \<open>
  Values on which the model is run below: a page whose navigation answers 200 and whose
  waits never settle, a request for it that waits for a selector, a lease on that page, a
  limiter of two requests per second.
\<close>

definition sample_page :: Page where
  "sample_page =
     \<lparr>route = None,
      goto = (\<lambda>u w t. Fulfilled (Some \<lparr>status = 200\<rparr>)),
      page_url = ''https://example.com/'',
      page_waitFor = (\<lambda>c. Pending),
      stability_error = None,
      scroll_error = None,
      captcha = False,
      block = (\<lambda>r. False),
      page_content = Inr ''<html></html>'',
      title = ''Example Domain'',
      page_screenshot = Inr ''iVBORw0KGgo=''\<rparr>"

definition sample_config :: RenderConfig where
  "sample_config =
     \<lparr>wait_until = load, timeout_ms = 5000, javascript = True,
      scroll = \<lparr>scroll_enabled = False, max_scrolls = 5, delay_ms = 500\<rparr>,
      wait_for = Some ''css: #main '', js_code = None\<rparr>"

definition sample_request :: RenderRequest where
  "sample_request =
     \<lparr>rq_url = ''https://example.com'', rq_render = sample_config, rq_browser = None,
      rq_proxy = None, rq_debug = None\<rparr>"

definition sample_timing :: Timing where
  "sample_timing = \<lparr>load_ms = 120, wait_ms = 5000, total_ms = 5200,
                     stamp = ''2024-01-01T00:00:00.000Z''\<rparr>"

definition sample_context :: NewContextOptions where
  "sample_context =
     \<lparr>userAgent = ''Mozilla/5.0'', context_viewport = \<lparr>width = 1366, height = 768\<rparr>,
      context_locale = ''en-US'', timezoneId = ''America/New_York'', proxy = None\<rparr>"

definition sample_lease :: Lease where
  "sample_lease =
     \<lparr>created_context = sample_context, created_page = sample_page, proxyUsed = False,
      browserId = ''b1''\<rparr>"

text \<open>
  What the platform's URL parser answers on the server strings used below, and an engine
  with that parser whose calls all succeed.
\<close>

definition sample_newURL :: "string \<Rightarrow> URL option" where
  "sample_newURL s =
     (if s = ''http://proxy.example.com:3128'' then
        Some \<lparr>url_protocol = ''http:'', url_hostname = ''proxy.example.com'',
              url_port = ''3128'', url_username = [], url_password = []\<rparr>
      else if s = ''https://proxy.example.com'' then
        Some \<lparr>url_protocol = ''https:'', url_hostname = ''proxy.example.com'',
              url_port = [], url_username = [], url_password = []\<rparr>
      else if s = ''http://user@proxy.example.com:3128'' then
        Some \<lparr>url_protocol = ''http:'', url_hostname = ''proxy.example.com'',
              url_port = ''3128'', url_username = ''user'', url_password = []\<rparr>
      else if s = ''http://proxy.example.com:80'' then
        Some \<lparr>url_protocol = ''http:'', url_hostname = ''proxy.example.com'',
              url_port = [], url_username = [], url_password = []\<rparr>
      else if s = ''http://proxy.example.com:0'' then
        Some \<lparr>url_protocol = ''http:'', url_hostname = ''proxy.example.com'',
              url_port = ''0'', url_username = [], url_password = []\<rparr>
      else if s = ''ftp://proxy.example.com:21'' then
        Some \<lparr>url_protocol = ''ftp:'', url_hostname = ''proxy.example.com'',
              url_port = [], url_username = [], url_password = []\<rparr>
      else None)"

definition sample_engine :: Engine where
  "sample_engine =
     \<lparr>newURL = sample_newURL,
      randomUserAgent = ''Mozilla/5.0'',
      newContext = (\<lambda>opts. None),
      applyFingerprint_error = None,
      newPage = Inr sample_page,
      applyPageStealth_error = None\<rparr>"

text \<open>
  For the pool: a world in which every launch and every context creation succeeds, a later
  one in which \<open>browser.newContext\<close> throws, one in which it throws as long as a request is
  queued, and one whose launch makes a second browser; plain acquisition options; the pool of at most one browser and two contexts
  after one acquisition, and the pool of at most one browser and one context after three
  acquisitions, two of them queued.
\<close>

definition sample_env :: Env where
  "sample_env =
     \<lparr>engine = (\<lambda>s. sample_engine), clock = 1000, launched = True, fresh_id = ''b1'',
      initial = (\<lambda>i. (True, ''b1''))\<rparr>"

definition failing_env :: Env where
  "failing_env =
     sample_env\<lparr>engine := (\<lambda>s. sample_engine\<lparr>newContext := (\<lambda>opts. Some ''Target closed'')\<rparr>),
                clock := 3000\<rparr>"

definition busy_env :: Env where
  "busy_env =
     failing_env\<lparr>engine := (\<lambda>s. if queue s = [] then sample_engine
                                else sample_engine\<lparr>newContext := (\<lambda>opts. Some ''Target closed'')\<rparr>)\<rparr>"

definition second_env :: Env where
  "second_env = sample_env\<lparr>fresh_id := ''b2'', clock := 2000\<rparr>"

definition sample_options :: AcquireOptions where
  "sample_options = \<lparr>acquire_browser = None, acquire_proxy = None, acquire_timeout = None\<rparr>"

definition sample_instance :: BrowserInstance where
  "sample_instance =
     \<lparr>instance_id = ''b1'', contextCount = 0, createdAt = 1000, lastUsedAt = 1000,
      isHealthy = True\<rparr>"

definition sample_pool :: BrowserPool where
  "sample_pool =
     \<lparr>instances = [(''b1'', sample_instance)], contextCounts = [''b1'' \<mapsto> 1], queue = [],
      timers = [], settled = [], isShuttingDown = False, initialized = True,
      minBrowsers = 1, maxBrowsers = 1, maxContextsPerBrowser = 2\<rparr>"

definition waiting_pool :: BrowserPool where
  "waiting_pool =
     \<lparr>instances = [(''b1'', sample_instance)], contextCounts = [''b1'' \<mapsto> 1],
      queue = [\<lparr>promise_id = 12, item_options = sample_options\<rparr>,
               \<lparr>promise_id = 13, item_options = sample_options\<rparr>],
      timers = [12, 13], settled = [], isShuttingDown = False, initialized = True,
      minBrowsers = 1, maxBrowsers = 1, maxContextsPerBrowser = 1\<rparr>"

text \<open>
  The pool with two queued acquisitions after its browser has disconnected and the
  replacement launch has failed: no instance is left, both requests still wait.
\<close>

definition vacant_pool :: BrowserPool where
  "vacant_pool = waiting_pool\<lparr>instances := [], contextCounts := Map.empty\<rparr>"

definition sample_limiter :: RateLimiter where
  "sample_limiter = \<lparr>store = Map.empty, windowMs = 1000, maxRequests = 2, enabled = True\<rparr>"

section \<open>Properties of the rate limiter\<close>

lemma isAllowed_config:
  "enabled (snd (isAllowed now key rl)) = enabled rl"
  "windowMs (snd (isAllowed now key rl)) = windowMs rl"
  "maxRequests (snd (isAllowed now key rl)) = maxRequests rl"
  by (auto simp: isAllowed_def split: option.splits)

lemma isAllowed_other_key:
  "k \<noteq> key \<Longrightarrow> store (snd (isAllowed now k rl)) key = store rl key"
  by (auto simp: isAllowed_def split: option.splits)

lemma isAllowed_install:
  assumes "enabled rl" "opensWindow now key rl"
  shows "allowed (fst (isAllowed now key rl))"
    and "store (snd (isAllowed now key rl)) key = Some \<lparr>count = 1, windowStart = now\<rparr>"
  using assms by (auto simp: isAllowed_def opensWindow_def split: option.splits)

lemma isAllowed_deny:
  assumes "enabled rl" "store rl key = Some e" "now - windowStart e < windowMs rl"
    "count e \<ge> maxRequests rl"
  shows "\<not> allowed (fst (isAllowed now key rl))"
    and "resetAt (fst (isAllowed now key rl)) = windowStart e + windowMs rl"
    and "snd (isAllowed now key rl) = rl"
  using assms by (auto simp: isAllowed_def)

lemma isAllowed_increment:
  assumes "enabled rl" "store rl key = Some e" "now - windowStart e < windowMs rl"
    "count e < maxRequests rl"
  shows "allowed (fst (isAllowed now key rl))"
    and "store (snd (isAllowed now key rl)) key = Some (e\<lparr>count := count e + 1\<rparr>)"
  using assms by (auto simp: isAllowed_def)

text \<open>
  Inside one window the counter only grows by the calls that were allowed, and it stops
  at \<open>maxRequests\<close> (or where it already was).
\<close>

lemma allowed_in_window:
  assumes "enabled rl" "store rl key = Some e" "windowStart e = t0" "inWindow rl t0 key cs"
  shows "count e + int (allowed_for key (fst (isAllowed_calls rl cs))) \<le> max (count e) (maxRequests rl)"
  using assms
proof (induction cs arbitrary: rl e)
  case Nil
  then show ?case by (simp add: allowed_for_def)
next
  case (Cons c cs)
  obtain t k where c: "c = (t, k)" by (cases c)
  obtain r rl' where step: "isAllowed t k rl = (r, rl')" by (cases "isAllowed t k rl")
  obtain rs rl'' where rest: "isAllowed_calls rl' cs = (rs, rl'')" by (cases "isAllowed_calls rl' cs")
  have cfg: "enabled rl'" "windowMs rl' = windowMs rl" "maxRequests rl' = maxRequests rl"
    using isAllowed_config [of t k rl] step Cons.prems(1) by simp_all
  have win: "inWindow rl' t0 key cs"
    using Cons.prems(4) cfg by (simp add: inWindow_def c)
  have run: "fst (isAllowed_calls rl (c # cs)) = (k, r) # rs"
    using step rest by (simp add: c)
  show ?case
  proof (cases "k = key")
    case False
    then have "store rl' key = Some e"
      using isAllowed_other_key [of k key t rl] step Cons.prems(2) by simp
    from Cons.IH [OF cfg(1) this Cons.prems(3) win]
    show ?thesis using False rest run cfg by (simp add: allowed_for_def)
  next
    case True
    then have inw: "t - windowStart e < windowMs rl"
      using Cons.prems(3,4) by (simp add: inWindow_def c)
    show ?thesis
    proof (cases "count e \<ge> maxRequests rl")
      case True
      have "\<not> allowed r" "rl' = rl"
        using isAllowed_deny [OF Cons.prems(1) _ inw True, of key] Cons.prems(2) \<open>k = key\<close> step
        by simp_all
      moreover have "store rl' key = Some e"
        using Cons.prems(2) \<open>rl' = rl\<close> by simp
      from Cons.IH [OF cfg(1) this Cons.prems(3) win]
      have "count e + int (allowed_for key rs) \<le> max (count e) (maxRequests rl)"
        using rest cfg by simp
      ultimately show ?thesis using run by (simp add: allowed_for_def)
    next
      case False
      then have lt: "count e < maxRequests rl" by simp
      have a: "allowed r" and s: "store rl' key = Some (e\<lparr>count := count e + 1\<rparr>)"
        using isAllowed_increment [OF Cons.prems(1) _ inw lt, of key] Cons.prems(2) \<open>k = key\<close> step
        by simp_all
      from Cons.IH [OF cfg(1) s _ win] Cons.prems(3)
      have "count e + 1 + int (allowed_for key rs) \<le> max (count e + 1) (maxRequests rl)"
        using rest cfg by simp
      then show ?thesis using a run lt \<open>k = key\<close> by (simp add: allowed_for_def)
    qed
  qed
qed

lemma window_bound:
  assumes "enabled rl" "opensWindow t0 key rl" "inWindow rl t0 key cs"
  shows "int (allowed_for key (fst (isAllowed_calls rl ((t0, key) # cs)))) \<le> max 1 (maxRequests rl)"
proof -
  obtain r rl' where step: "isAllowed t0 key rl = (r, rl')" by (cases "isAllowed t0 key rl")
  obtain rs rl'' where rest: "isAllowed_calls rl' cs = (rs, rl'')" by (cases "isAllowed_calls rl' cs")
  have a: "allowed r" and s: "store rl' key = Some \<lparr>count = 1, windowStart = t0\<rparr>"
    using isAllowed_install [OF assms(1,2)] step by simp_all
  have cfg: "enabled rl'" "windowMs rl' = windowMs rl" "maxRequests rl' = maxRequests rl"
    using isAllowed_config [of t0 key rl] step assms(1) by simp_all
  have win: "inWindow rl' t0 key cs" using assms(3) cfg by (simp add: inWindow_def)
  from allowed_in_window [OF cfg(1) s _ win]
  have "1 + int (allowed_for key rs) \<le> max 1 (maxRequests rl)" using rest cfg by simp
  then show ?thesis using step rest a by (simp add: allowed_for_def)
qed

text \<open>
  C5 (as amended). For an enabled limiter and every key, \<open>isAllowed\<close> follows the fixed-window
  reference: with no entry, or with \<open>now - windowStart \<ge> windowMs\<close>, it installs
  \<open>{count: 1, windowStart: now}\<close> and allows; otherwise, with \<open>count \<ge> maxRequests\<close>, it
  denies with \<open>resetAt = windowStart + windowMs\<close> and leaves the limiter as it was; otherwise
  it increments the count and allows. Consequently the calls allowed for one key within one
  window (the call that opens it and the calls that fall into it) number at most
  \<open>max 1 maxRequests\<close>, which is \<open>maxRequests\<close> whenever \<open>maxRequests \<ge> 1\<close>.
\<close>

theorem isAllowed_fixed_window:
  assumes "enabled rl"
  shows "(opensWindow now key rl \<longrightarrow>
            allowed (fst (isAllowed now key rl)) \<and>
            store (snd (isAllowed now key rl)) key = Some \<lparr>count = 1, windowStart = now\<rparr>)
       \<and> (store rl k = Some e \<and> t - windowStart e < windowMs rl \<longrightarrow>
            (if count e \<ge> maxRequests rl
             then \<not> allowed (fst (isAllowed t k rl)) \<and>
                  resetAt (fst (isAllowed t k rl)) = windowStart e + windowMs rl \<and>
                  snd (isAllowed t k rl) = rl
             else allowed (fst (isAllowed t k rl)) \<and>
                  store (snd (isAllowed t k rl)) k = Some (e\<lparr>count := count e + 1\<rparr>)))
       \<and> (opensWindow now key rl \<and> inWindow rl now key cs \<longrightarrow>
            int (allowed_for key (fst (isAllowed_calls rl ((now, key) # cs)))) \<le> max 1 (maxRequests rl))
       \<and> (opensWindow now key rl \<and> inWindow rl now key cs \<and> 1 \<le> maxRequests rl \<longrightarrow>
            int (allowed_for key (fst (isAllowed_calls rl ((now, key) # cs)))) \<le> maxRequests rl)"
proof -
  have w: "opensWindow now key rl \<and> inWindow rl now key cs \<Longrightarrow>
      int (allowed_for key (fst (isAllowed_calls rl ((now, key) # cs)))) \<le> max 1 (maxRequests rl)"
    using window_bound [OF assms] by blast
  have w1: "opensWindow now key rl \<and> inWindow rl now key cs \<and> 1 \<le> maxRequests rl \<Longrightarrow>
      int (allowed_for key (fst (isAllowed_calls rl ((now, key) # cs)))) \<le> maxRequests rl"
    using w by (simp add: max_def split: if_splits)
  have d: "store rl k = Some e \<and> t - windowStart e < windowMs rl \<Longrightarrow>
      (if count e \<ge> maxRequests rl
       then \<not> allowed (fst (isAllowed t k rl)) \<and>
            resetAt (fst (isAllowed t k rl)) = windowStart e + windowMs rl \<and>
            snd (isAllowed t k rl) = rl
       else allowed (fst (isAllowed t k rl)) \<and>
            store (snd (isAllowed t k rl)) k = Some (e\<lparr>count := count e + 1\<rparr>))"
    using assms by (auto simp: isAllowed_def)
  show ?thesis
    using isAllowed_install [OF assms] w w1 d by blast
qed

text \<open>
  The theorem at a limiter of two requests per second: key \<open>a\<close> is new, key \<open>b\<close> has used both
  requests of its running window. Three calls for \<open>a\<close> inside one window: two are allowed.
\<close>

theorem isAllowed_fixed_window_witness:
  "enabled \<lparr>store = [''b'' \<mapsto> \<lparr>count = 2, windowStart = 100\<rparr>], windowMs = 1000,
            maxRequests = 2, enabled = True\<rparr>
   \<and> opensWindow 500 ''a'' \<lparr>store = [''b'' \<mapsto> \<lparr>count = 2, windowStart = 100\<rparr>], windowMs = 1000,
            maxRequests = 2, enabled = True\<rparr>
   \<and> inWindow \<lparr>store = [''b'' \<mapsto> \<lparr>count = 2, windowStart = 100\<rparr>], windowMs = 1000,
            maxRequests = 2, enabled = True\<rparr> 500 ''a'' [(600, ''a''), (700, ''b''), (1499, ''a'')]
   \<and> \<not> allowed (fst (isAllowed 700 ''b'' \<lparr>store = [''b'' \<mapsto> \<lparr>count = 2, windowStart = 100\<rparr>],
            windowMs = 1000, maxRequests = 2, enabled = True\<rparr>))
   \<and> resetAt (fst (isAllowed 700 ''b'' \<lparr>store = [''b'' \<mapsto> \<lparr>count = 2, windowStart = 100\<rparr>],
            windowMs = 1000, maxRequests = 2, enabled = True\<rparr>)) = 1100
   \<and> int (allowed_for ''a'' (fst (isAllowed_calls
          \<lparr>store = [''b'' \<mapsto> \<lparr>count = 2, windowStart = 100\<rparr>], windowMs = 1000,
            maxRequests = 2, enabled = True\<rparr>
          [(500, ''a''), (600, ''a''), (700, ''b''), (1499, ''a'')]))) \<le> 2"
  using isAllowed_fixed_window [of
      "\<lparr>store = [''b'' \<mapsto> \<lparr>count = 2, windowStart = 100\<rparr>], windowMs = 1000,
        maxRequests = 2, enabled = True\<rparr>"
      500 "''a''" "''b''" "\<lparr>count = 2, windowStart = 100\<rparr>" 700
      "[(600, ''a''), (700, ''b''), (1499, ''a'')]"]
  by (simp add: opensWindow_def inWindow_def)

text \<open>
  C5 as stated fails for a limiter configured with \<open>maxRequests = 0\<close>: the call that opens a
  window is allowed without looking at \<open>maxRequests\<close>, so one call is allowed where the
  claim promises at most zero.
\<close>

theorem isAllowed_window_bound_counterexample:
  "opensWindow 0 ''k'' \<lparr>store = Map.empty, windowMs = 1000, maxRequests = 0, enabled = True\<rparr>
   \<and> allowed (fst (isAllowed 0 ''k''
        \<lparr>store = Map.empty, windowMs = 1000, maxRequests = 0, enabled = True\<rparr>))
   \<and> \<not> int (allowed_for ''k'' (fst (isAllowed_calls
        \<lparr>store = Map.empty, windowMs = 1000, maxRequests = 0, enabled = True\<rparr> [(0, ''k'')])))
        \<le> maxRequests \<lparr>store = Map.empty, windowMs = 1000, maxRequests = 0, enabled = True\<rparr>"
  by (simp add: opensWindow_def isAllowed_def allowed_for_def)

section \<open>Evaluating decimal text\<close>

lemma show_nat_small: "n < 10 \<Longrightarrow> show_nat n = [''0123456789'' ! n]"
  by (simp add: show_nat.simps)

lemma show_nat_big:
  "\<not> n < 10 \<Longrightarrow> show_nat n = show_nat (n div 10) @ [''0123456789'' ! (n mod 10)]"
  by (subst show_nat.simps) simp

lemmas show_int_eval = show_int_def show_nat_small show_nat_big

section \<open>Navigation\<close>

text \<open>
  C7. If the navigation resolves with a null response, \<open>loadPage\<close> returns a result with
  \<open>success = true\<close>, \<open>httpStatus = 200\<close> and \<open>finalUrl\<close> the page's current URL. The
  navigation is reached when JavaScript is enabled or the route interceptor was installed
  without an error.
\<close>

theorem loadPage_null_response:
  assumes "javascript config \<or> route pg = None"
    and "goto pg url (mapWaitUntil (wait_until config)) (timeout_ms config) = Fulfilled None"
  shows "\<exists>r. loadPage pg ms url config = Inr r \<and> nav_success r \<and> httpStatus r = 200
            \<and> finalUrl r = page_url pg \<and> response r = None \<and> nav_error r = None
            \<and> loadTimeMs r = ms"
  using assms by (auto simp: loadPage_def withTimeout_def)

theorem loadPage_null_response_witness:
  "(javascript sample_config \<or> route (sample_page\<lparr>goto := (\<lambda>u w t. Fulfilled None)\<rparr>) = None)
   \<and> goto (sample_page\<lparr>goto := (\<lambda>u w t. Fulfilled None)\<rparr>) ''https://example.com''
        (mapWaitUntil (wait_until sample_config)) (timeout_ms sample_config) = Fulfilled None
   \<and> loadPage (sample_page\<lparr>goto := (\<lambda>u w t. Fulfilled None)\<rparr>) 120 ''https://example.com''
        sample_config
      = Inr \<lparr>nav_success = True, response = None, finalUrl = ''https://example.com/'',
             httpStatus = 200, loadTimeMs = 120, nav_error = None\<rparr>"
  using loadPage_null_response [of sample_config "sample_page\<lparr>goto := (\<lambda>u w t. Fulfilled None)\<rparr>"
      "''https://example.com''" 120]
  by (simp add: sample_page_def sample_config_def loadPage_def withTimeout_def mapWaitUntil_def)

section \<open>Scripted wait\<close>

lemma loadPage_waitFor:
  "loadPage (pg\<lparr>page_waitFor := f\<rparr>) ms url config = loadPage pg ms url config"
  by (simp add: loadPage_def split: option.split sum.split)

lemma captureDebugArtifacts_waitFor:
  "captureDebugArtifacts (pg\<lparr>page_waitFor := f\<rparr>) dbg = captureDebugArtifacts pg dbg"
  by (simp add: captureDebugArtifacts_def split: option.split sum.split)

lemma renderPage_wait_independent:
  "fst (renderPage tm rid rq (lease\<lparr>created_page := (created_page lease)\<lparr>page_waitFor := f\<rparr>\<rparr>))
   = fst (renderPage tm rid rq lease)"
  by (simp add: renderPage_def loadPage_waitFor captureDebugArtifacts_waitFor stabilize_def
        scrollStage_def successResponse_def split: sum.split option.split)

lemma executeWaitFor_success:
  "wait_success (executeWaitFor pg ms w t) = (page_waitFor pg (fst (waitCallFor w t)) = Fulfilled ())"
  by (cases "page_waitFor pg (fst (waitCallFor w t))")
     (auto simp: executeWaitFor_def withTimeout_def split: prod.splits)

lemma executeWaitFor_error:
  "\<not> wait_success (executeWaitFor pg ms w t) \<Longrightarrow> wait_error (executeWaitFor pg ms w t) \<noteq> None"
  by (cases "page_waitFor pg (fst (waitCallFor w t))")
     (auto simp: executeWaitFor_def withTimeout_def split: prod.splits)

lemma render_wait_independent:
  "fst (render (\<lambda>opts. Fulfilled (lease\<lparr>created_page := (created_page lease)\<lparr>page_waitFor := f\<rparr>\<rparr>))
          tm rid rq)
   = fst (render (\<lambda>opts. Fulfilled lease) tm rid rq)"
proof -
  let ?l = "lease\<lparr>created_page := (created_page lease)\<lparr>page_waitFor := f\<rparr>\<rparr>"
  let ?rq = "buildCompleteRequest rq"
  have "fst (renderPage tm rid ?rq ?l) = fst (renderPage tm rid ?rq lease)"
    by (rule renderPage_wait_independent)
  then show ?thesis
    by (cases "renderPage tm rid ?rq ?l"; cases "renderPage tm rid ?rq lease")
       (auto simp: render_def withTimeout_def Let_def split: sum.splits)
qed

lemma executeWaitFor_result:
  "executeWaitFor pg ms w t =
     (case page_waitFor pg (fst (waitCallFor w t)) of
        Fulfilled u \<Rightarrow> \<lparr>wait_success = True, wait_error = None, durationMs = ms\<rparr>
      | Rejected e \<Rightarrow> \<lparr>wait_success = False, wait_error = Some e, durationMs = ms\<rparr>
      | Pending \<Rightarrow> \<lparr>wait_success = False, wait_error = Some (snd (waitCallFor w t)),
                     durationMs = ms\<rparr>)"
proof -
  have m: "snd (waitCallFor w t) \<noteq> []" by (simp add: waitCallFor_def)
  show ?thesis
    using m
    by (cases "waitCallFor w t"; cases "page_waitFor pg (fst (waitCallFor w t))")
       (simp_all add: executeWaitFor_def withTimeout_def)
qed

lemma waitCallFor_eq:
  "waitCallFor w t =
      (if startsWith w ''css:'' then
         (WaitForSelector (trim (drop 4 w)) ''attached'' t,
          ''CSS wait timeout for selector: '' @ trim (drop 4 w))
       else if startsWith w ''js:'' then
         (WaitForFunction (trim (drop 3 w)) t, ''JS wait condition timeout'')
       else (WaitForSelector w ''attached'' t, ''Wait timeout for selector: '' @ w))"
  by (simp add: waitCallFor_def)

lemma waitStage_lines:
  "waitStage pg tm cfg =
     (case wait_for cfg of
        None \<Rightarrow> []
      | Some w \<Rightarrow>
          if w = [] then []
          else (case page_waitFor pg (fst (waitCallFor w (timeout_ms cfg))) of
                  Fulfilled u \<Rightarrow> []
                | Rejected e \<Rightarrow> [''[RenderWorker] wait_for condition failed: '' @ e]
                | Pending \<Rightarrow> [''[RenderWorker] wait_for condition failed: ''
                               @ snd (waitCallFor w (timeout_ms cfg))]))"
  by (simp add: waitStage_def Let_def executeWaitFor_result
           split: option.split promise.split)

lemma render_runs_wait:
  assumes "acq \<lparr>acquire_browser = rq_browser (buildCompleteRequest rq),
                 acquire_proxy = rq_proxy (buildCompleteRequest rq),
                 acquire_timeout = Some 30000\<rparr> = Fulfilled lease"
    and "loadPage (created_page lease) (load_ms tm) (rq_url rq) (rq_render rq) = Inr nr"
    and "nav_success nr"
    and "wait_until (rq_render rq) = networkidle \<longrightarrow> stability_error (created_page lease) = None"
    and "scroll_enabled (scroll (rq_render rq)) \<longrightarrow> scroll_error (created_page lease) = None"
    and "page_content (created_page lease) = Inr h"
  shows "render acq tm rid rq =
     (successResponse tm rid (rq_render rq) lease nr h
        (fst (captureDebugArtifacts (created_page lease) (rq_debug (buildCompleteRequest rq)))),
      (case wait_for (rq_render rq) of
         None \<Rightarrow> []
       | Some w \<Rightarrow>
           if w = [] then []
           else (case page_waitFor (created_page lease)
                        (fst (waitCallFor w (timeout_ms (rq_render rq)))) of
                   Fulfilled u \<Rightarrow> []
                 | Rejected e \<Rightarrow> [''[RenderWorker] wait_for condition failed: '' @ e]
                 | Pending \<Rightarrow> [''[RenderWorker] wait_for condition failed: ''
                                @ snd (waitCallFor w (timeout_ms (rq_render rq)))]))
      @ snd (captureDebugArtifacts (created_page lease) (rq_debug (buildCompleteRequest rq))))"
proof -
  have b: "rq_url (buildCompleteRequest rq) = rq_url rq"
    "rq_render (buildCompleteRequest rq) = rq_render rq"
    by (simp_all add: buildCompleteRequest_def)
  have st: "stabilize (created_page lease) (rq_render rq) = None"
    using assms(4) by (simp add: stabilize_def)
  have sc: "scrollStage (created_page lease) (rq_render rq) = None"
    using assms(5) by (simp add: scrollStage_def)
  have rp: "renderPage tm rid (buildCompleteRequest rq) lease =
     (Inr (successResponse tm rid (rq_render rq) lease nr h
        (fst (captureDebugArtifacts (created_page lease) (rq_debug (buildCompleteRequest rq))))),
      waitStage (created_page lease) tm (rq_render rq)
      @ snd (captureDebugArtifacts (created_page lease) (rq_debug (buildCompleteRequest rq))))"
    using assms(2,3,6) st sc by (simp add: renderPage_def b)
  show ?thesis
    using assms(1) rp by (simp add: render_def withTimeout_def waitStage_lines Let_def)
qed

text \<open>
  C8. \<open>executeWaitFor\<close> dispatches on the prefix: a value starting with \<open>css:\<close> waits for
  the (trimmed) selector in the attached state, a value starting with \<open>js:\<close> waits for the
  (trimmed) function, any other value is waited for as a selector, each with the timeout
  given; the wait succeeds exactly when that engine call fulfils, and a failure is returned
  as a result with \<open>success = false\<close> and the message of the error or of the timer.
  \<open>render\<close>, on a lease whose navigation succeeds and whose other stages do not throw,
  runs that wait for a non-empty \<open>wait_for\<close> with the request's \<open>timeout_ms\<close>, writes one
  console line when it fails and none when it succeeds, and returns the success response
  in both cases; the response of \<open>render\<close> is the same whatever the page's waits do.
\<close>

theorem executeWaitFor_dispatch:
  "waitCallFor w t =
      (if startsWith w ''css:'' then
         (WaitForSelector (trim (drop 4 w)) ''attached'' t,
          ''CSS wait timeout for selector: '' @ trim (drop 4 w))
       else if startsWith w ''js:'' then
         (WaitForFunction (trim (drop 3 w)) t, ''JS wait condition timeout'')
       else (WaitForSelector w ''attached'' t, ''Wait timeout for selector: '' @ w))
   \<and> executeWaitFor pg ms w t =
       (case page_waitFor pg (fst (waitCallFor w t)) of
          Fulfilled u \<Rightarrow> \<lparr>wait_success = True, wait_error = None, durationMs = ms\<rparr>
        | Rejected e \<Rightarrow> \<lparr>wait_success = False, wait_error = Some e, durationMs = ms\<rparr>
        | Pending \<Rightarrow> \<lparr>wait_success = False, wait_error = Some (snd (waitCallFor w t)),
                       durationMs = ms\<rparr>)
   \<and> wait_success (executeWaitFor pg ms w t)
       = (page_waitFor pg (fst (waitCallFor w t)) = Fulfilled ())
   \<and> (\<not> wait_success (executeWaitFor pg ms w t)
        \<longrightarrow> wait_error (executeWaitFor pg ms w t) \<noteq> None)
   \<and> (acq \<lparr>acquire_browser = rq_browser (buildCompleteRequest rq),
              acquire_proxy = rq_proxy (buildCompleteRequest rq),
              acquire_timeout = Some 30000\<rparr> = Fulfilled lease
       \<and> loadPage (created_page lease) (load_ms tm) (rq_url rq) (rq_render rq) = Inr nr
       \<and> nav_success nr
       \<and> (wait_until (rq_render rq) = networkidle
            \<longrightarrow> stability_error (created_page lease) = None)
       \<and> (scroll_enabled (scroll (rq_render rq)) \<longrightarrow> scroll_error (created_page lease) = None)
       \<and> page_content (created_page lease) = Inr h
       \<longrightarrow> success (fst (render acq tm rid rq))
         \<and> render acq tm rid rq =
           (successResponse tm rid (rq_render rq) lease nr h
              (fst (captureDebugArtifacts (created_page lease)
                      (rq_debug (buildCompleteRequest rq)))),
            (case wait_for (rq_render rq) of
               None \<Rightarrow> []
             | Some w' \<Rightarrow>
                 if w' = [] then []
                 else (case page_waitFor (created_page lease)
                              (fst (waitCallFor w' (timeout_ms (rq_render rq)))) of
                         Fulfilled u \<Rightarrow> []
                       | Rejected e \<Rightarrow> [''[RenderWorker] wait_for condition failed: '' @ e]
                       | Pending \<Rightarrow>
                           [''[RenderWorker] wait_for condition failed: ''
                              @ snd (waitCallFor w' (timeout_ms (rq_render rq)))]))
            @ snd (captureDebugArtifacts (created_page lease)
                     (rq_debug (buildCompleteRequest rq)))))
   \<and> (wait_for cfg = Some w \<and> w \<noteq> [] \<longrightarrow>
        waitStage pg tm cfg =
          (if page_waitFor pg (fst (waitCallFor w (timeout_ms cfg))) = Fulfilled () then []
           else [''[RenderWorker] wait_for condition failed: ''
                   @ (case wait_error (executeWaitFor pg (wait_ms tm) w (timeout_ms cfg)) of
                        None \<Rightarrow> ''undefined'' | Some e \<Rightarrow> e)]))
   \<and> fst (render (\<lambda>opts. Fulfilled (lease\<lparr>created_page := (created_page lease)\<lparr>page_waitFor := f\<rparr>\<rparr>))
            tm rid rq)
       = fst (render (\<lambda>opts. Fulfilled lease) tm rid rq)"
proof -
  have d: "wait_for cfg = Some w \<and> w \<noteq> [] \<longrightarrow>
        waitStage pg tm cfg =
          (if page_waitFor pg (fst (waitCallFor w (timeout_ms cfg))) = Fulfilled () then []
           else [''[RenderWorker] wait_for condition failed: ''
                   @ (case wait_error (executeWaitFor pg (wait_ms tm) w (timeout_ms cfg)) of
                        None \<Rightarrow> ''undefined'' | Some e \<Rightarrow> e)])"
    using executeWaitFor_success [of pg "wait_ms tm" w "timeout_ms cfg"]
    by (simp add: waitStage_def Let_def)
  have r: "acq \<lparr>acquire_browser = rq_browser (buildCompleteRequest rq),
              acquire_proxy = rq_proxy (buildCompleteRequest rq),
              acquire_timeout = Some 30000\<rparr> = Fulfilled lease
       \<and> loadPage (created_page lease) (load_ms tm) (rq_url rq) (rq_render rq) = Inr nr
       \<and> nav_success nr
       \<and> (wait_until (rq_render rq) = networkidle
            \<longrightarrow> stability_error (created_page lease) = None)
       \<and> (scroll_enabled (scroll (rq_render rq)) \<longrightarrow> scroll_error (created_page lease) = None)
       \<and> page_content (created_page lease) = Inr h
       \<longrightarrow> success (fst (render acq tm rid rq))
         \<and> render acq tm rid rq =
           (successResponse tm rid (rq_render rq) lease nr h
              (fst (captureDebugArtifacts (created_page lease)
                      (rq_debug (buildCompleteRequest rq)))),
            (case wait_for (rq_render rq) of
               None \<Rightarrow> []
             | Some w' \<Rightarrow>
                 if w' = [] then []
                 else (case page_waitFor (created_page lease)
                              (fst (waitCallFor w' (timeout_ms (rq_render rq)))) of
                         Fulfilled u \<Rightarrow> []
                       | Rejected e \<Rightarrow> [''[RenderWorker] wait_for condition failed: '' @ e]
                       | Pending \<Rightarrow>
                           [''[RenderWorker] wait_for condition failed: ''
                              @ snd (waitCallFor w' (timeout_ms (rq_render rq)))]))
            @ snd (captureDebugArtifacts (created_page lease)
                     (rq_debug (buildCompleteRequest rq))))"
  proof (intro impI, elim conjE)
    assume h: "acq \<lparr>acquire_browser = rq_browser (buildCompleteRequest rq),
              acquire_proxy = rq_proxy (buildCompleteRequest rq),
              acquire_timeout = Some 30000\<rparr> = Fulfilled lease"
      "loadPage (created_page lease) (load_ms tm) (rq_url rq) (rq_render rq) = Inr nr"
      "nav_success nr"
      "wait_until (rq_render rq) = networkidle \<longrightarrow> stability_error (created_page lease) = None"
      "scroll_enabled (scroll (rq_render rq)) \<longrightarrow> scroll_error (created_page lease) = None"
      "page_content (created_page lease) = Inr h"
    have e: "render acq tm rid rq =
           (successResponse tm rid (rq_render rq) lease nr h
              (fst (captureDebugArtifacts (created_page lease)
                      (rq_debug (buildCompleteRequest rq)))),
            (case wait_for (rq_render rq) of
               None \<Rightarrow> []
             | Some w' \<Rightarrow>
                 if w' = [] then []
                 else (case page_waitFor (created_page lease)
                              (fst (waitCallFor w' (timeout_ms (rq_render rq)))) of
                         Fulfilled u \<Rightarrow> []
                       | Rejected e \<Rightarrow> [''[RenderWorker] wait_for condition failed: '' @ e]
                       | Pending \<Rightarrow>
                           [''[RenderWorker] wait_for condition failed: ''
                              @ snd (waitCallFor w' (timeout_ms (rq_render rq)))]))
            @ snd (captureDebugArtifacts (created_page lease)
                     (rq_debug (buildCompleteRequest rq))))"
      using h by (rule render_runs_wait)
    have "success (fst (render acq tm rid rq))"
      by (simp add: e successResponse_def)
    then show "success (fst (render acq tm rid rq))
         \<and> render acq tm rid rq =
           (successResponse tm rid (rq_render rq) lease nr h
              (fst (captureDebugArtifacts (created_page lease)
                      (rq_debug (buildCompleteRequest rq)))),
            (case wait_for (rq_render rq) of
               None \<Rightarrow> []
             | Some w' \<Rightarrow>
                 if w' = [] then []
                 else (case page_waitFor (created_page lease)
                              (fst (waitCallFor w' (timeout_ms (rq_render rq)))) of
                         Fulfilled u \<Rightarrow> []
                       | Rejected e \<Rightarrow> [''[RenderWorker] wait_for condition failed: '' @ e]
                       | Pending \<Rightarrow>
                           [''[RenderWorker] wait_for condition failed: ''
                              @ snd (waitCallFor w' (timeout_ms (rq_render rq)))]))
            @ snd (captureDebugArtifacts (created_page lease)
                     (rq_debug (buildCompleteRequest rq))))"
      using e by blast
  qed
  show ?thesis
    using waitCallFor_eq [of w t] executeWaitFor_result [of pg ms w t]
      executeWaitFor_success [of pg ms w t] executeWaitFor_error [of pg ms w t] r d
      render_wait_independent [where lease=lease and f=f and tm=tm and rid=rid and rq=rq]
    by (intro conjI) blast+
qed

text \<open>
  The sample request waits for \<open>css: #main\<close> on a page whose waits never settle: the wait
  fails with the timer's message, the line is written, and the render succeeds.
\<close>

theorem executeWaitFor_dispatch_witness:
  "wait_for sample_config = Some ''css: #main '' \<and> ''css: #main '' \<noteq> []
   \<and> loadPage (created_page sample_lease) (load_ms sample_timing) (rq_url sample_request)
        (rq_render sample_request)
       = Inr \<lparr>nav_success = True, response = Some \<lparr>status = 200\<rparr>,
               finalUrl = ''https://example.com/'', httpStatus = 200, loadTimeMs = 120,
               nav_error = None\<rparr>
   \<and> page_content (created_page sample_lease) = Inr ''<html></html>''
   \<and> waitCallFor ''css: #main '' 5000
       = (WaitForSelector ''#main'' ''attached'' 5000, ''CSS wait timeout for selector: #main'')
   \<and> executeWaitFor sample_page 5000 ''css: #main '' 5000
       = \<lparr>wait_success = False,
          wait_error = Some ''CSS wait timeout for selector: #main'', durationMs = 5000\<rparr>
   \<and> waitStage sample_page sample_timing sample_config
       = [''[RenderWorker] wait_for condition failed: CSS wait timeout for selector: #main'']
   \<and> success (fst (render (\<lambda>opts. Fulfilled sample_lease) sample_timing ''r1'' sample_request))
   \<and> snd (render (\<lambda>opts. Fulfilled sample_lease) sample_timing ''r1'' sample_request)
       = [''[RenderWorker] wait_for condition failed: CSS wait timeout for selector: #main'']
   \<and> success (fst (render (\<lambda>opts. Fulfilled
          (sample_lease\<lparr>created_page := (created_page sample_lease)\<lparr>page_waitFor := (\<lambda>c. Fulfilled ())\<rparr>\<rparr>))
          sample_timing ''r1'' sample_request))
   \<and> snd (render (\<lambda>opts. Fulfilled
          (sample_lease\<lparr>created_page := (created_page sample_lease)\<lparr>page_waitFor := (\<lambda>c. Fulfilled ())\<rparr>\<rparr>))
          sample_timing ''r1'' sample_request) = []"
  using executeWaitFor_dispatch [where w="''css: #main ''" and t=5000 and pg=sample_page
      and ms=5000 and cfg=sample_config and tm=sample_timing and lease=sample_lease
      and f="\<lambda>c. Fulfilled ()" and rid="''r1''" and rq=sample_request
      and acq="\<lambda>opts. Fulfilled sample_lease"
      and nr="\<lparr>nav_success = True, response = Some \<lparr>status = 200\<rparr>,
               finalUrl = ''https://example.com/'', httpStatus = 200, loadTimeMs = 120,
               nav_error = None\<rparr>"
      and h="''<html></html>''"]
  by (simp add: sample_config_def sample_page_def sample_timing_def sample_lease_def
        sample_request_def
        waitCallFor_def startsWith_def trim_def isWhiteSpace_def executeWaitFor_def
        withTimeout_def waitStage_def render_def buildCompleteRequest_def renderPage_def
        loadPage_def mapWaitUntil_def stabilize_def scrollStage_def successResponse_def
        captureDebugArtifacts_def)

section \<open>Status codes at the HTTP edge\<close>

lemma errorCodeOf_TIMEOUT:
  "(errorCodeOf m = ''TIMEOUT'') = (str_includes m ''timeout'' \<or> str_includes m ''Timeout'')"
  by (simp add: errorCodeOf_def)

lemma first_code_createErrorResponse:
  "(case errors (createErrorResponse rid ts c msg det) of
      Some (e # es) \<Rightarrow> code e = ''TIMEOUT'' | _ \<Rightarrow> False) = (c = ''TIMEOUT'')"
  "\<not> success (createErrorResponse rid ts c msg det)"
  by (simp_all add: createErrorResponse_def)

lemma renderPage_response:
  assumes "fst (renderPage tm rid rq lease) = Inr r"
  shows "(success r \<and> errors r = None)
       \<or> (\<not> success r \<and> (\<exists>det. r = createErrorResponse rid (stamp tm) ''NAVIGATION_FAILED''
                                    ''Failed to load the page'' det))"
  using assms
  by (auto simp: renderPage_def successResponse_def createErrorResponse_def
           split: sum.splits option.splits if_splits)

lemma statusOf_render:
  "statusOf (fst (render acq tm rid rq)) =
     (case withTimeout
             (acq \<lparr>acquire_browser = rq_browser (buildCompleteRequest rq),
                       acquire_proxy = rq_proxy (buildCompleteRequest rq),
                       acquire_timeout = Some 30000\<rparr>)
             35000 ''Timeout acquiring browser context'' of
        Inl m \<Rightarrow> if str_includes m ''timeout'' \<or> str_includes m ''Timeout'' then 504 else 500
      | Inr lease \<Rightarrow>
          (case fst (renderPage tm rid (buildCompleteRequest rq) lease) of
             Inr r \<Rightarrow> if success r then 200 else 500
           | Inl m \<Rightarrow> if str_includes m ''timeout'' \<or> str_includes m ''Timeout''
                      then 504 else 500))"
proof (cases "withTimeout
             (acq \<lparr>acquire_browser = rq_browser (buildCompleteRequest rq),
                       acquire_proxy = rq_proxy (buildCompleteRequest rq),
                       acquire_timeout = Some 30000\<rparr>)
             35000 ''Timeout acquiring browser context''")
  case (Inl m)
  then show ?thesis
    by (simp add: render_def statusOf_def first_code_createErrorResponse errorCodeOf_TIMEOUT)
next
  case (Inr lease)
  obtain res logs where rp: "renderPage tm rid (buildCompleteRequest rq) lease = (res, logs)"
    by (cases "renderPage tm rid (buildCompleteRequest rq) lease")
  show ?thesis
  proof (cases res)
    case (Inl m)
    then show ?thesis using Inr rp
      by (simp add: render_def statusOf_def first_code_createErrorResponse errorCodeOf_TIMEOUT)
  next
    case r: (Inr r)
    have "fst (renderPage tm rid (buildCompleteRequest rq) lease) = Inr r" using rp r by simp
    from renderPage_response [OF this]
    have "statusOf r = (if success r then 200 else 500)"
      by (auto simp: statusOf_def createErrorResponse_def)
    then show ?thesis using Inr rp r by (simp add: render_def)
  qed
qed

lemma statusOf_renderWithTimeout:
  "statusOf (fst (renderWithTimeout acq tm inTime rid rq mx)) =
     (if inTime then statusOf (fst (render acq tm rid rq)) else 500)"
  by (simp add: renderWithTimeout_def withTimeout_def statusOf_def createErrorResponse_def)

lemma renderWithTimeout_late:
  "\<exists>det. errors (fst (renderWithTimeout acq tm False rid rq mx))
          = Some [\<lparr>code = ''TOTAL_TIMEOUT'', message = ''Total render timeout exceeded'',
                    details = det\<rparr>]"
  by (simp add: renderWithTimeout_def withTimeout_def createErrorResponse_def)

lemma handleRender_limited:
  "\<not> allowed (fst (isAllowed now ip rl)) \<Longrightarrow>
     statusCode (fst (handleRender now ip rl v acq tm inTime rid lim)) = 429
     \<and> \<not> success (body (fst (handleRender now ip rl v acq tm inTime rid lim)))"
  by (cases "isAllowed now ip rl") (simp add: handleRender_def createErrorResponse_def)

lemma handleRender_invalid:
  "allowed (fst (isAllowed now ip rl)) \<Longrightarrow>
     statusCode (fst (handleRender now ip rl (Failed errs) acq tm inTime rid lim)) = 400
     \<and> \<not> success (body (fst (handleRender now ip rl (Failed errs) acq tm inTime rid lim)))"
  by (cases "isAllowed now ip rl") (simp add: handleRender_def)

lemma handleRender_valid:
  "allowed (fst (isAllowed now ip rl)) \<Longrightarrow>
     fst (handleRender now ip rl (Validated rq) acq tm inTime rid lim)
     = \<lparr>statusCode = statusOf (fst (renderWithTimeout acq tm inTime rid rq
           ((if timeout_ms (rq_render rq) \<noteq> 0 then timeout_ms (rq_render rq) else 30000)
             + 30000))),
        body = fst (renderWithTimeout acq tm inTime rid rq
           ((if timeout_ms (rq_render rq) \<noteq> 0 then timeout_ms (rq_render rq) else 30000)
             + 30000))\<rparr>"
  by (cases "isAllowed now ip rl") (simp add: handleRender_def Let_def)

lemma handleRender_status_200:
  "statusCode (fst (handleRender now ip rl v acq tm inTime rid lim)) = 200
   \<longleftrightarrow> success (body (fst (handleRender now ip rl v acq tm inTime rid lim)))"
proof (cases "allowed (fst (isAllowed now ip rl))")
  case False
  then show ?thesis using handleRender_limited [of now ip rl v acq tm inTime rid lim] by simp
next
  case True
  then show ?thesis
    using handleRender_invalid [of now ip rl _ acq tm inTime rid lim]
      handleRender_valid [of now ip rl _ acq tm inTime rid lim]
    by (cases v) (simp_all add: statusOf_def)
qed

lemma handleRender_status_eq:
  "statusCode (fst (handleRender now ip rl v acq tm inTime rid lim)) =
     (if \<not> allowed (fst (isAllowed now ip rl)) then 429
      else case v of
        Failed errs \<Rightarrow> 400
      | Validated rq \<Rightarrow>
          if \<not> inTime then 500
          else
            (case withTimeout
                    (acq \<lparr>acquire_browser = rq_browser (buildCompleteRequest rq),
                              acquire_proxy = rq_proxy (buildCompleteRequest rq),
                              acquire_timeout = Some 30000\<rparr>)
                    35000 ''Timeout acquiring browser context'' of
               Inl m \<Rightarrow> if str_includes m ''timeout'' \<or> str_includes m ''Timeout''
                          then 504 else 500
             | Inr lease \<Rightarrow>
                 (case fst (renderPage tm rid (buildCompleteRequest rq) lease) of
                    Inr r \<Rightarrow> if success r then 200 else 500
                  | Inl m \<Rightarrow> if str_includes m ''timeout'' \<or> str_includes m ''Timeout''
                             then 504 else 500)))"
proof (cases "allowed (fst (isAllowed now ip rl))")
  case False
  then show ?thesis using handleRender_limited [of now ip rl v acq tm inTime rid lim] by simp
next
  case ok: True
  show ?thesis
  proof (cases v)
    case (Failed errs)
    then show ?thesis using ok handleRender_invalid [of now ip rl errs acq tm inTime rid lim]
      by simp
  next
    case (Validated rq)
    show ?thesis
      unfolding Validated
      using ok
      by (simp add: handleRender_valid statusOf_renderWithTimeout statusOf_render)
  qed
qed

lemma handleRender_late:
  "allowed (fst (isAllowed now ip rl)) \<and> \<not> inTime \<longrightarrow>
     (\<exists>det. errors (body (fst (handleRender now ip rl (Validated rq) acq tm inTime rid lim)))
             = Some [\<lparr>code = ''TOTAL_TIMEOUT'', message = ''Total render timeout exceeded'',
                       details = det\<rparr>])"
  using renderWithTimeout_late [of acq tm rid rq]
  by (auto simp: handleRender_valid)

text \<open>
  C6 (as amended). The status code of a render request is 429 when the rate limiter denies
  it; otherwise 400 when validation fails; otherwise 200 exactly when the render succeeds,
  504 when the render fails with an error thrown inside \<open>render\<close> (by the acquisition or
  by a stage of the pipeline) whose message contains \<open>timeout\<close> or \<open>Timeout\<close>, which is
  what gives the error code \<open>TIMEOUT\<close>, and 500 for every other failure: a failed
  navigation (code \<open>NAVIGATION_FAILED\<close>, navigation timeouts included), any other thrown
  error, and the outer deadline (code \<open>TOTAL_TIMEOUT\<close>).
\<close>

theorem handleRender_status:
  "statusCode (fst (handleRender now ip rl v acq tm inTime rid lim)) =
     (if \<not> allowed (fst (isAllowed now ip rl)) then 429
      else case v of
        Failed errs \<Rightarrow> 400
      | Validated rq \<Rightarrow>
          if \<not> inTime then 500
          else
            (case withTimeout
                    (acq \<lparr>acquire_browser = rq_browser (buildCompleteRequest rq),
                              acquire_proxy = rq_proxy (buildCompleteRequest rq),
                              acquire_timeout = Some 30000\<rparr>)
                    35000 ''Timeout acquiring browser context'' of
               Inl m \<Rightarrow> if str_includes m ''timeout'' \<or> str_includes m ''Timeout''
                          then 504 else 500
             | Inr lease \<Rightarrow>
                 (case fst (renderPage tm rid (buildCompleteRequest rq) lease) of
                    Inr r \<Rightarrow> if success r then 200 else 500
                  | Inl m \<Rightarrow> if str_includes m ''timeout'' \<or> str_includes m ''Timeout''
                             then 504 else 500)))
   \<and> (allowed (fst (isAllowed now ip rl)) \<and> \<not> inTime \<longrightarrow>
        (\<exists>det. errors (body (fst (handleRender now ip rl (Validated rq0) acq tm inTime
                                     rid lim)))
                = Some [\<lparr>code = ''TOTAL_TIMEOUT'', message = ''Total render timeout exceeded'',
                          details = det\<rparr>]))
   \<and> (statusCode (fst (handleRender now ip rl v acq tm inTime rid lim)) = 200
        \<longleftrightarrow> success (body (fst (handleRender now ip rl v acq tm inTime rid lim))))"
  using handleRender_status_eq [of now ip rl v acq tm inTime rid lim]
    handleRender_late [of now ip rl inTime rq0 acq tm rid lim]
    handleRender_status_200 [of now ip rl v acq tm inTime rid lim]
  by (intro conjI)

text \<open>
  The sample request: 200 when it renders, 504 when the acquisition is still pending after
  35 seconds, 400 when validation fails, 429 when the client has used its window.
\<close>

theorem handleRender_status_witness:
  "allowed (fst (isAllowed 0 ''10.0.0.1'' sample_limiter))
   \<and> statusCode (fst (handleRender 0 ''10.0.0.1'' sample_limiter (Validated sample_request)
        (\<lambda>opts. Fulfilled sample_lease) sample_timing True ''r1'' [])) = 200
   \<and> success (body (fst (handleRender 0 ''10.0.0.1'' sample_limiter (Validated sample_request)
        (\<lambda>opts. Fulfilled sample_lease) sample_timing True ''r1'' [])))
   \<and> statusCode (fst (handleRender 0 ''10.0.0.1'' sample_limiter (Validated sample_request)
        (\<lambda>opts. Pending) sample_timing True ''r1'' [])) = 504
   \<and> statusCode (fst (handleRender 0 ''10.0.0.1'' sample_limiter (Failed [(''url'', ''Invalid URL format'')])
        (\<lambda>opts. Fulfilled sample_lease) sample_timing True ''r1'' [])) = 400
   \<and> statusCode (fst (handleRender 0 ''10.0.0.1''
        (sample_limiter\<lparr>store := [''10.0.0.1'' \<mapsto> \<lparr>count = 2, windowStart = 0\<rparr>]\<rparr>)
        (Validated sample_request)
        (\<lambda>opts. Fulfilled sample_lease) sample_timing True ''r1'' [])) = 429"
  using handleRender_status [where now=0 and ip="''10.0.0.1''" and rl=sample_limiter
      and v="Validated sample_request" and ?rq0.0=sample_request
      and acq="\<lambda>opts. Fulfilled sample_lease" and tm=sample_timing and inTime=True
      and rid="''r1''" and lim="[]"]
    handleRender_status [where now=0 and ip="''10.0.0.1''" and rl=sample_limiter
      and v="Validated sample_request" and ?rq0.0=sample_request
      and acq="\<lambda>opts. Pending" and tm=sample_timing and inTime=True
      and rid="''r1''" and lim="[]"]
    handleRender_status [where now=0 and ip="''10.0.0.1''" and rl=sample_limiter
      and v="Failed [(''url'', ''Invalid URL format'')]" and ?rq0.0=sample_request
      and acq="\<lambda>opts. Fulfilled sample_lease" and tm=sample_timing and inTime=True
      and rid="''r1''" and lim="[]"]
    handleRender_status [where now=0 and ip="''10.0.0.1''"
      and rl="sample_limiter\<lparr>store := [''10.0.0.1'' \<mapsto> \<lparr>count = 2, windowStart = 0\<rparr>]\<rparr>"
      and v="Validated sample_request" and ?rq0.0=sample_request
      and acq="\<lambda>opts. Fulfilled sample_lease" and tm=sample_timing and inTime=True
      and rid="''r1''" and lim="[]"]
  by (simp add: handleRender_def sample_limiter_def isAllowed_def sample_request_def
        sample_lease_def sample_page_def sample_config_def sample_timing_def
        renderWithTimeout_def render_def withTimeout_def renderPage_def loadPage_def
        mapWaitUntil_def stabilize_def scrollStage_def successResponse_def
        buildCompleteRequest_def createErrorResponse_def statusOf_def errorCodeOf_def)

text \<open>
  C6 as stated fails at the outer deadline: the sample request whose render does not settle
  in time is answered with code \<open>TOTAL_TIMEOUT\<close> and status 500, not 504. A navigation
  that times out is answered with \<open>NAVIGATION_FAILED\<close> and status 500 as well.
\<close>

theorem handleRender_total_timeout_counterexample:
  "statusCode (fst (handleRender 0 ''10.0.0.1'' sample_limiter (Validated sample_request)
      (\<lambda>opts. Fulfilled sample_lease) sample_timing False ''r1'' [])) = 500
   \<and> errors (body (fst (handleRender 0 ''10.0.0.1'' sample_limiter (Validated sample_request)
      (\<lambda>opts. Fulfilled sample_lease) sample_timing False ''r1'' [])))
     = Some [\<lparr>code = ''TOTAL_TIMEOUT'', message = ''Total render timeout exceeded'',
              details = Some ''Total render timeout exceeded: 35000ms''\<rparr>]
   \<and> statusCode (fst (handleRender 0 ''10.0.0.1'' sample_limiter (Validated sample_request)
      (\<lambda>opts. Fulfilled (sample_lease\<lparr>created_page := sample_page\<lparr>goto := (\<lambda>u w t. Pending)\<rparr>\<rparr>))
      sample_timing True ''r1'' [])) = 500
   \<and> errors (body (fst (handleRender 0 ''10.0.0.1'' sample_limiter (Validated sample_request)
      (\<lambda>opts. Fulfilled (sample_lease\<lparr>created_page := sample_page\<lparr>goto := (\<lambda>u w t. Pending)\<rparr>\<rparr>))
      sample_timing True ''r1'' [])))
     = Some [\<lparr>code = ''NAVIGATION_FAILED'', message = ''Failed to load the page'',
              details = Some ''Navigation timeout: 5000ms exceeded''\<rparr>]"
  by (simp add: handleRender_def sample_limiter_def isAllowed_def sample_request_def
        sample_lease_def sample_page_def sample_config_def sample_timing_def
        renderWithTimeout_def render_def withTimeout_def renderPage_def loadPage_def
        mapWaitUntil_def buildCompleteRequest_def createErrorResponse_def statusOf_def
        show_int_eval)

section \<open>Proxy configuration\<close>
















section \<open>Proxy flag of a created context\<close>

lemma hasProxy_iff: "hasProxy (Some pc) = (trim (server pc) \<noteq> [])"
  by (auto simp: hasProxy_def trim_def)

lemma createContext_proxy:
  assumes "createContext eng \<lparr>options_browser = b, options_proxy = Some pc\<rparr> = Inr cc"
  shows "proxyUsed cc = hasProxy (Some pc)"
    and "proxy (created_context cc)
         = (if hasProxy (Some pc) then toPlaywrightProxy (newURL eng) pc else None)"
  using assms
  by (auto simp: createContext_def Let_def split: option.splits sum.splits)

lemma toPlaywrightProxy_invalid:
  "\<not> valid (parseProxy parse pc) \<Longrightarrow> toPlaywrightProxy parse pc = None"
  by (simp add: toPlaywrightProxy_def)

lemma renderPage_success_meta:
  assumes "fst (renderPage tm rid rq lease) = Inr r" "success r"
  shows "\<exists>m. meta r = Some m \<and> proxy_used m = proxyUsed lease"
  using assms
  by (auto simp: renderPage_def successResponse_def createErrorResponse_def
           split: sum.splits option.splits if_splits)

lemma render_success_meta:
  assumes "acq \<lparr>acquire_browser = rq_browser (buildCompleteRequest rq),
                     acquire_proxy = rq_proxy (buildCompleteRequest rq),
                     acquire_timeout = Some 30000\<rparr> = Fulfilled lease"
    and "success (fst (render acq tm rid rq))"
  shows "\<exists>m. meta (fst (render acq tm rid rq)) = Some m \<and> proxy_used m = proxyUsed lease"
proof -
  obtain res logs where rp: "renderPage tm rid (buildCompleteRequest rq) lease = (res, logs)"
    by (cases "renderPage tm rid (buildCompleteRequest rq) lease")
  show ?thesis
  proof (cases res)
    case (Inl m)
    then show ?thesis using assms rp
      by (simp add: render_def withTimeout_def createErrorResponse_def)
  next
    case (Inr r)
    then have "fst (render acq tm rid rq) = r"
      using assms(1) rp by (simp add: render_def withTimeout_def)
    moreover have "fst (renderPage tm rid (buildCompleteRequest rq) lease) = Inr r"
      using rp Inr by simp
    ultimately show ?thesis using renderPage_success_meta assms(2) by metis
  qed
qed

text \<open>
  C10 (as amended). For every request supplying a proxy whose server string is not blank
  (non-empty after trimming white space) but fails to parse, \<open>createContext\<close> builds the
  browser context with no proxy configured, yet \<open>proxyUsed\<close> is true, and so is
  \<open>meta.proxy_used\<close> of the response when the render on that context succeeds: \<open>hasProxy\<close>
  only checks that the trimmed server string is non-empty.
\<close>

theorem createContext_unparsed_proxy:
  assumes "rq_proxy rq = Some pc"
    and "trim (server pc) \<noteq> []"
    and "\<not> valid (parseProxy (newURL eng) pc)"
    and "createContext eng \<lparr>options_browser = rq_browser (buildCompleteRequest rq),
                            options_proxy = rq_proxy (buildCompleteRequest rq)\<rparr> = Inr cc"
  shows "hasProxy (rq_proxy rq)
       \<and> proxy (created_context cc) = None
       \<and> proxyUsed cc
       \<and> (acq \<lparr>acquire_browser = rq_browser (buildCompleteRequest rq),
                    acquire_proxy = rq_proxy (buildCompleteRequest rq),
                    acquire_timeout = Some 30000\<rparr> = Fulfilled (leaseOf cc bid)
            \<and> success (fst (render acq tm rid rq))
          \<longrightarrow> (\<exists>m. meta (fst (render acq tm rid rq)) = Some m \<and> proxy_used m))"
proof -
  have p: "rq_proxy (buildCompleteRequest rq) = Some pc"
    using assms(1) by (simp add: buildCompleteRequest_def)
  have h: "hasProxy (Some pc)" using assms(2) by (simp add: hasProxy_iff)
  have u: "proxyUsed cc" and n: "proxy (created_context cc) = None"
    using createContext_proxy [of eng _ pc cc] assms(4) p h
      toPlaywrightProxy_invalid [OF assms(3)] by simp_all
  have m: "acq \<lparr>acquire_browser = rq_browser (buildCompleteRequest rq),
                    acquire_proxy = rq_proxy (buildCompleteRequest rq),
                    acquire_timeout = Some 30000\<rparr> = Fulfilled (leaseOf cc bid)
            \<and> success (fst (render acq tm rid rq))
          \<longrightarrow> (\<exists>m. meta (fst (render acq tm rid rq)) = Some m \<and> proxy_used m)"
    using render_success_meta [of acq rq "leaseOf cc bid" tm rid] u
    by (auto simp: leaseOf_def)
  show ?thesis using h u n m assms(1) by simp
qed

text \<open>A proxy with the unsupported protocol ftp, on the sample request.\<close>

theorem createContext_unparsed_proxy_witness:
  "rq_proxy (sample_request\<lparr>rq_proxy := Some \<lparr>server = ''ftp://proxy.example.com:21'',
        username = None, password = None, rotate = None\<rparr>\<rparr>)
     = Some \<lparr>server = ''ftp://proxy.example.com:21'', username = None, password = None,
             rotate = None\<rparr>
   \<and> trim ''ftp://proxy.example.com:21'' \<noteq> []
   \<and> \<not> valid (parseProxy (newURL sample_engine)
          \<lparr>server = ''ftp://proxy.example.com:21'', username = None, password = None,
            rotate = None\<rparr>)
   \<and> createContext sample_engine
        \<lparr>options_browser = Some defaults_browser,
          options_proxy = Some \<lparr>server = ''ftp://proxy.example.com:21'', username = None,
                                 password = None, rotate = None\<rparr>\<rparr>
       = Inr \<lparr>created_context = sample_context, created_page = sample_page, proxyUsed = True\<rparr>
   \<and> proxy sample_context = None
   \<and> map_option proxy_used (meta (fst (render
          (\<lambda>opts. Fulfilled (leaseOf
             \<lparr>created_context = sample_context, created_page = sample_page, proxyUsed = True\<rparr>
             ''b1''))
          sample_timing ''r1''
          (sample_request\<lparr>rq_proxy := Some \<lparr>server = ''ftp://proxy.example.com:21'',
             username = None, password = None, rotate = None\<rparr>\<rparr>))))
       = Some True"
  using createContext_unparsed_proxy [where
      rq="sample_request\<lparr>rq_proxy := Some \<lparr>server = ''ftp://proxy.example.com:21'',
             username = None, password = None, rotate = None\<rparr>\<rparr>"
      and pc="\<lparr>server = ''ftp://proxy.example.com:21'', username = None, password = None,
             rotate = None\<rparr>"
      and eng=sample_engine
      and cc="\<lparr>created_context = sample_context, created_page = sample_page, proxyUsed = True\<rparr>"
      and acq="\<lambda>opts. Fulfilled (leaseOf
             \<lparr>created_context = sample_context, created_page = sample_page, proxyUsed = True\<rparr>
             ''b1'')"
      and bid="''b1''" and tm=sample_timing and rid="''r1''"]
  by (simp add: sample_request_def sample_engine_def sample_context_def sample_page_def
        sample_config_def sample_timing_def sample_newURL_def defaults_browser_def
        trim_def isWhiteSpace_def parseProxy_def serverWithProtocol_def invalidProxy_def
        createContext_def getFingerprintOptions_def hasProxy_def toPlaywrightProxy_def
        truthy_def leaseOf_def render_def buildCompleteRequest_def withTimeout_def
        renderPage_def loadPage_def mapWaitUntil_def stabilize_def scrollStage_def
        successResponse_def)

text \<open>
  C10 as stated fails for a server string that is non-empty but blank: a single space does
  not parse, the context is built without a proxy, and \<open>proxyUsed\<close> and \<open>meta.proxy_used\<close>
  are false.
\<close>

theorem createContext_blank_proxy_counterexample:
  "server \<lparr>server = '' '', username = None, password = None, rotate = None\<rparr> \<noteq> []
   \<and> \<not> valid (parseProxy (newURL sample_engine)
          \<lparr>server = '' '', username = None, password = None, rotate = None\<rparr>)
   \<and> \<not> hasProxy (Some \<lparr>server = '' '', username = None, password = None, rotate = None\<rparr>)
   \<and> createContext sample_engine
        \<lparr>options_browser = Some defaults_browser,
          options_proxy = Some \<lparr>server = '' '', username = None, password = None,
                                 rotate = None\<rparr>\<rparr>
       = Inr \<lparr>created_context = sample_context, created_page = sample_page, proxyUsed = False\<rparr>
   \<and> proxy sample_context = None
   \<and> map_option proxy_used (meta (fst (render
          (\<lambda>opts. Fulfilled (leaseOf
             \<lparr>created_context = sample_context, created_page = sample_page, proxyUsed = False\<rparr>
             ''b1''))
          sample_timing ''r1''
          (sample_request\<lparr>rq_proxy := Some \<lparr>server = '' '', username = None,
             password = None, rotate = None\<rparr>\<rparr>))))
       = Some False"
  by (simp add: sample_request_def sample_engine_def sample_context_def sample_page_def
        sample_config_def sample_timing_def sample_newURL_def defaults_browser_def
        trim_def isWhiteSpace_def parseProxy_def serverWithProtocol_def invalidProxy_def
        createContext_def getFingerprintOptions_def hasProxy_def toPlaywrightProxy_def
        truthy_def leaseOf_def render_def buildCompleteRequest_def withTimeout_def
        renderPage_def loadPage_def mapWaitUntil_def stabilize_def scrollStage_def
        successResponse_def)

section \<open>Lease counts of the pool\<close>

lemma leaseCount_reserve:
  "leaseCount (reserve env bid s) b = (if b = bid then leaseCount s bid + 1 else leaseCount s b)"
  by (simp add: reserve_def leaseCount_def)

lemma leaseCount_decrement:
  "leaseCount (decrement bid s) b = (if b = bid then max 0 (leaseCount s bid - 1) else leaseCount s b)"
  by (simp add: decrement_def leaseCount_def)

lemma leaseCount_settle: "leaseCount (settle pid outcome s) b = leaseCount s b"
  by (simp add: settle_def leaseCount_def)

lemma leaseCount_waitForAvailable: "leaseCount (waitForAvailable pid opts s) b = leaseCount s b"
  by (simp add: waitForAvailable_def leaseCount_def)

lemma map_of_touch:
  "map_of (touch bid now xs) k
   = (if k = bid then map_option (\<lambda>i. i\<lparr>lastUsedAt := now\<rparr>) (map_of xs k) else map_of xs k)"
  by (induction xs) (auto simp: touch_def)

lemma nonneg_reserve: "countsNonNegative s \<Longrightarrow> countsNonNegative (reserve env bid s)"
  by (simp add: countsNonNegative_def leaseCount_reserve)

lemma nonneg_decrement: "countsNonNegative s \<Longrightarrow> countsNonNegative (decrement bid s)"
  by (simp add: countsNonNegative_def leaseCount_decrement)

lemma nonneg_settle: "countsNonNegative s \<Longrightarrow> countsNonNegative (settle pid outcome s)"
  by (simp add: countsNonNegative_def leaseCount_settle)

lemma nonneg_waitForAvailable:
  "countsNonNegative s \<Longrightarrow> countsNonNegative (waitForAvailable pid opts s)"
  by (simp add: countsNonNegative_def leaseCount_waitForAvailable)

lemma nonneg_fields:
  "countsNonNegative s \<Longrightarrow> countsNonNegative (s\<lparr>queue := q, timers := t\<rparr>)"
  "countsNonNegative s \<Longrightarrow> countsNonNegative (s\<lparr>initialized := i\<rparr>)"
  by (simp_all add: countsNonNegative_def leaseCount_def)

lemma nonneg_addBrowser:
  "countsNonNegative s \<Longrightarrow> countsNonNegative (snd (addBrowser ok uid now s))"
  by (simp add: addBrowser_def countsNonNegative_def leaseCount_def Let_def)

lemma nonneg_launchBrowser:
  "countsNonNegative s \<Longrightarrow> countsNonNegative (snd (launchBrowser env s))"
  by (simp add: launchBrowser_def nonneg_addBrowser)

lemma nonneg_fold_addBrowser:
  "countsNonNegative s \<Longrightarrow>
   countsNonNegative (fold (\<lambda>i s'. snd (addBrowser (f i) (g i) now s')) ns s)"
  by (induction ns arbitrary: s) (simp_all add: nonneg_addBrowser)

lemma nonneg_initialize: "countsNonNegative s \<Longrightarrow> countsNonNegative (initialize env s)"
  by (simp add: initialize_def nonneg_fields nonneg_fold_addBrowser)

lemma nonneg_createContextFromInstance:
  "countsNonNegative s \<Longrightarrow> countsNonNegative (snd (createContextFromInstance env inst opts s))"
  by (simp add: createContextFromInstance_def Let_def nonneg_reserve nonneg_decrement
           split: sum.split)

lemma nonneg_processQueue:
  assumes inv: "countsNonNegative s"
  shows "countsNonNegative (processQueue env s)"
proof (cases "queue s")
  case Nil
  then show ?thesis using inv by (simp add: processQueue_def)
next
  case (Cons item rest)
  show ?thesis
  proof (cases "findAvailableBrowser s")
    case None
    then show ?thesis using Cons inv by (simp add: processQueue_def)
  next
    case (Some inst)
    let ?s1 = "s\<lparr>queue := rest, timers := removeAll (promise_id item) (timers s)\<rparr>"
    obtain r s' where c: "createContextFromInstance env inst (item_options item) ?s1 = (r, s')"
      by (cases "createContextFromInstance env inst (item_options item) ?s1")
    have "countsNonNegative ?s1" using inv by (rule nonneg_fields(1))
    then have "countsNonNegative (snd (createContextFromInstance env inst (item_options item) ?s1))"
      by (rule nonneg_createContextFromInstance)
    then have "countsNonNegative s'" using c by simp
    then show ?thesis using Cons Some c
      by (cases r) (simp_all add: processQueue_def nonneg_settle)
  qed
qed

lemma nonneg_cleanup: "countsNonNegative s \<Longrightarrow> countsNonNegative (cleanup env bid s)"
  by (simp add: cleanup_def nonneg_processQueue nonneg_decrement)

lemma nonneg_served:
  "countsNonNegative (snd r) \<Longrightarrow> countsNonNegative (snd (served r))"
  by (cases r) (auto simp: served_def split: sum.splits)

lemma nonneg_acquire:
  assumes inv: "countsNonNegative s"
  shows "countsNonNegative (snd (acquire env pid opts s))"
proof -
  let ?s0 = "initialize env s"
  have i0: "countsNonNegative ?s0" using inv by (rule nonneg_initialize)
  obtain li s1 where l: "launchBrowser env ?s0 = (li, s1)" by (cases "launchBrowser env ?s0")
  have i1: "countsNonNegative s1" using nonneg_launchBrowser [OF i0, of env] l by simp
  show ?thesis
    using inv i0 i1 l
    by (auto simp: acquire_def Let_def nonneg_served nonneg_createContextFromInstance
          nonneg_waitForAvailable split: option.splits)
qed

lemma nonneg_poolStep: "countsNonNegative s \<Longrightarrow> countsNonNegative (poolStep c s)"
  by (cases c; cases "snd c") (auto simp: nonneg_acquire nonneg_cleanup)

lemma nonneg_poolRun: "countsNonNegative s \<Longrightarrow> countsNonNegative (poolRun calls s)"
  unfolding poolRun_def
  by (induction calls arbitrary: s) (simp_all add: nonneg_poolStep)

lemma nonneg_newPool: "countsNonNegative (newPool mn mx ctxs)"
  by (simp add: countsNonNegative_def newPool_def leaseCount_def)

section \<open>Reservation before context creation\<close>

lemma createContextFromInstance_fails:
  assumes "createContext (engine env (reserve env (instance_id inst) s))
             \<lparr>options_browser = acquire_browser opts, options_proxy = acquire_proxy opts\<rparr> = Inl e"
  shows "createContextFromInstance env inst opts s
         = (Inl e, decrement (instance_id inst) (reserve env (instance_id inst) s))"
  using assms by (simp add: createContextFromInstance_def Let_def)

lemma createContextFromInstance_succeeds:
  assumes "createContext (engine env (reserve env (instance_id inst) s))
             \<lparr>options_browser = acquire_browser opts, options_proxy = acquire_proxy opts\<rparr> = Inr cc"
  shows "createContextFromInstance env inst opts s
         = (Inr (leaseOf cc (instance_id inst)), reserve env (instance_id inst) s)"
  using assms by (simp add: createContextFromInstance_def Let_def)

lemma acquire_found_fails:
  assumes "\<not> isShuttingDown s" "findAvailableBrowser (initialize env s) = Some inst"
    and "createContext (engine env (reserve env (instance_id inst) (initialize env s)))
           \<lparr>options_browser = acquire_browser opts, options_proxy = acquire_proxy opts\<rparr> = Inl e"
  shows "fst (acquire env pid opts s) = Threw e"
    and "leaseCount (snd (acquire env pid opts s)) (instance_id inst)
         = max 0 (leaseCount (initialize env s) (instance_id inst))"
  using assms createContextFromInstance_fails [OF assms(3)]
  by (simp_all add: acquire_def Let_def served_def leaseCount_decrement leaseCount_reserve)

lemma acquire_launched_fails:
  assumes "\<not> isShuttingDown s" "findAvailableBrowser (initialize env s) = None"
    and "poolSize (initialize env s) < maxBrowsers (initialize env s)"
    and "launchBrowser env (initialize env s) = (Some inst, s1)"
    and "createContext (engine env (reserve env (instance_id inst) s1))
           \<lparr>options_browser = acquire_browser opts, options_proxy = acquire_proxy opts\<rparr> = Inl e"
  shows "fst (acquire env pid opts s) = Threw e"
    and "leaseCount (snd (acquire env pid opts s)) (instance_id inst)
         = max 0 (leaseCount s1 (instance_id inst))"
  using assms createContextFromInstance_fails [OF assms(5)]
  by (simp_all add: acquire_def Let_def served_def leaseCount_decrement leaseCount_reserve)

text \<open>
  C3. When an instance is selected, its lease-count is incremented and its \<open>lastUsedAt\<close>
  set before the context is created: the engine is called in the state \<open>reserve\<close> leaves.
  If the context creation then fails, the lease-count is decremented back to its prior
  value floored at zero, the other counts are as before, and the error is thrown to the
  caller of \<open>acquire\<close>, for an instance found and for an instance launched alike.
\<close>

theorem createContextFromInstance_reservation:
  "leaseCount (reserve env (instance_id inst) s) (instance_id inst)
     = leaseCount s (instance_id inst) + 1
   \<and> map_of (instances (reserve env (instance_id inst) s)) (instance_id inst)
     = map_option (\<lambda>i. i\<lparr>lastUsedAt := clock env\<rparr>) (map_of (instances s) (instance_id inst))
   \<and> (createContext (engine env (reserve env (instance_id inst) s))
         \<lparr>options_browser = acquire_browser opts, options_proxy = acquire_proxy opts\<rparr> = Inr cc
       \<longrightarrow> createContextFromInstance env inst opts s
           = (Inr (leaseOf cc (instance_id inst)), reserve env (instance_id inst) s))
   \<and> (createContext (engine env (reserve env (instance_id inst) s))
         \<lparr>options_browser = acquire_browser opts, options_proxy = acquire_proxy opts\<rparr> = Inl e
       \<longrightarrow> fst (createContextFromInstance env inst opts s) = Inl e
         \<and> leaseCount (snd (createContextFromInstance env inst opts s)) (instance_id inst)
             = max 0 (leaseCount s (instance_id inst))
         \<and> (\<forall>b. b \<noteq> instance_id inst \<longrightarrow>
               leaseCount (snd (createContextFromInstance env inst opts s)) b = leaseCount s b))
   \<and> (\<not> isShuttingDown s \<and> findAvailableBrowser (initialize env s) = Some inst
       \<and> createContext (engine env (reserve env (instance_id inst) (initialize env s)))
           \<lparr>options_browser = acquire_browser opts, options_proxy = acquire_proxy opts\<rparr> = Inl e
       \<longrightarrow> fst (acquire env pid opts s) = Threw e
         \<and> leaseCount (snd (acquire env pid opts s)) (instance_id inst)
             = max 0 (leaseCount (initialize env s) (instance_id inst)))
   \<and> (\<not> isShuttingDown s \<and> findAvailableBrowser (initialize env s) = None
       \<and> poolSize (initialize env s) < maxBrowsers (initialize env s)
       \<and> launchBrowser env (initialize env s) = (Some inst, s1)
       \<and> createContext (engine env (reserve env (instance_id inst) s1))
           \<lparr>options_browser = acquire_browser opts, options_proxy = acquire_proxy opts\<rparr> = Inl e
       \<longrightarrow> fst (acquire env pid opts s) = Threw e
         \<and> leaseCount (snd (acquire env pid opts s)) (instance_id inst)
             = max 0 (leaseCount s1 (instance_id inst)))"
proof -
  have a: "leaseCount (reserve env (instance_id inst) s) (instance_id inst)
     = leaseCount s (instance_id inst) + 1"
    by (simp add: leaseCount_reserve)
  have b: "map_of (instances (reserve env (instance_id inst) s)) (instance_id inst)
     = map_option (\<lambda>i. i\<lparr>lastUsedAt := clock env\<rparr>) (map_of (instances s) (instance_id inst))"
    by (simp add: reserve_def map_of_touch)
  have c: "createContext (engine env (reserve env (instance_id inst) s))
         \<lparr>options_browser = acquire_browser opts, options_proxy = acquire_proxy opts\<rparr> = Inl e
       \<longrightarrow> fst (createContextFromInstance env inst opts s) = Inl e
         \<and> leaseCount (snd (createContextFromInstance env inst opts s)) (instance_id inst)
             = max 0 (leaseCount s (instance_id inst))
         \<and> (\<forall>b. b \<noteq> instance_id inst \<longrightarrow>
               leaseCount (snd (createContextFromInstance env inst opts s)) b = leaseCount s b)"
    by (simp add: createContextFromInstance_fails leaseCount_decrement leaseCount_reserve)
  show ?thesis
    using a b c createContextFromInstance_succeeds [of env inst s opts cc]
      acquire_found_fails [of s env inst opts e pid]
      acquire_launched_fails [of s env inst s1 opts e pid]
    by (intro conjI impI) (simp_all only:, blast+)
qed

lemmas pool_eval =
  sample_env_def failing_env_def busy_env_def second_env_def sample_options_def
  sample_instance_def sample_pool_def sample_engine_def sample_page_def sample_context_def
  defaults_browser_def newPool_def
  acquire_def initialize_def findAvailableBrowser_def leaseCount_def poolSize_def
  launchBrowser_def addBrowser_def createContextFromInstance_def reserve_def decrement_def
  touch_def served_def waitForAvailable_def processQueue_def cleanup_def settle_def
  createContext_def getFingerprintOptions_def hasProxy_def truthy_def leaseOf_def
  handleBrowserDisconnect_def map_delete_def poolRun_def

text \<open>
  On the sample pool, with an engine whose \<open>newContext\<close> throws: the count goes from 1 to
  2, the engine fails, the count is back at 1 and \<open>acquire\<close> throws the engine's error.
\<close>

theorem createContextFromInstance_reservation_witness:
  "\<not> isShuttingDown sample_pool
   \<and> findAvailableBrowser (initialize failing_env sample_pool) = Some sample_instance
   \<and> createContext (engine failing_env
         (reserve failing_env (instance_id sample_instance) (initialize failing_env sample_pool)))
         \<lparr>options_browser = acquire_browser sample_options,
           options_proxy = acquire_proxy sample_options\<rparr> = Inl ''Target closed''
   \<and> leaseCount sample_pool ''b1'' = 1
   \<and> leaseCount (reserve failing_env ''b1'' sample_pool) ''b1'' = 2
   \<and> map_option lastUsedAt (map_of (instances (reserve failing_env ''b1'' sample_pool)) ''b1'')
       = Some 3000
   \<and> fst (acquire failing_env 17 sample_options sample_pool) = Threw ''Target closed''
   \<and> leaseCount (snd (acquire failing_env 17 sample_options sample_pool)) ''b1'' = 1"
  using createContextFromInstance_reservation [where env=failing_env and inst=sample_instance
      and s=sample_pool and opts=sample_options and e="''Target closed''" and pid=17]
  by (simp add: pool_eval)

section \<open>Histories that reach the sample pools\<close>

lemma upt_one: "[0 ..< nat 1] = [0]"
  by simp

lemma reach1:
  "acquire sample_env 11 sample_options (newPool 1 1 2)
   = (Leased (leaseOf \<lparr>created_context = sample_context, created_page = sample_page,
                        proxyUsed = False\<rparr> ''b1''), sample_pool)"
  by (simp add: pool_eval Let_def)

lemma reach2:
  "snd (acquire sample_env 12 sample_options sample_pool)
   = sample_pool\<lparr>contextCounts := [''b1'' \<mapsto> 2]\<rparr>"
  by (simp add: pool_eval Let_def)

lemma reach3:
  "cleanup sample_env ''b1'' (sample_pool\<lparr>contextCounts := [''b1'' \<mapsto> 2]\<rparr>) = sample_pool"
  by (simp add: pool_eval Let_def)

lemma reach4:
  "cleanup sample_env ''b1'' sample_pool = sample_pool\<lparr>contextCounts := [''b1'' \<mapsto> 0]\<rparr>"
  by (simp add: pool_eval Let_def)

lemma reachw1:
  "snd (acquire sample_env 11 sample_options (newPool 1 1 1))
   = waiting_pool\<lparr>queue := [], timers := []\<rparr>"
  by (simp add: pool_eval waiting_pool_def Let_def)

lemma reachw2:
  "acquire sample_env 12 sample_options (waiting_pool\<lparr>queue := [], timers := []\<rparr>)
   = (Queued 12, waiting_pool\<lparr>queue := [\<lparr>promise_id = 12, item_options = sample_options\<rparr>],
                              timers := [12]\<rparr>)"
  by (simp add: pool_eval waiting_pool_def Let_def)

lemma reachw3:
  "acquire sample_env 13 sample_options
     (waiting_pool\<lparr>queue := [\<lparr>promise_id = 12, item_options = sample_options\<rparr>], timers := [12]\<rparr>)
   = (Queued 13, waiting_pool)"
  by (simp add: pool_eval waiting_pool_def Let_def)

lemma poolRun_Nil: "poolRun [] s = s"
  by (simp add: poolRun_def)

lemma poolRun_Cons: "poolRun (c # cs) s = poolRun cs (poolStep c s)"
  by (simp add: poolRun_def)

lemma reach_sample_pool:
  "poolRun [(sample_env, Acquire 11 sample_options)] (newPool 1 1 2) = sample_pool"
  by (simp add: poolRun_Cons poolRun_Nil reach1)

lemma reach_waiting_pool:
  "poolRun [(sample_env, Acquire 11 sample_options), (sample_env, Acquire 12 sample_options),
            (sample_env, Acquire 13 sample_options)] (newPool 1 1 1) = waiting_pool"
  by (simp add: poolRun_Cons poolRun_Nil reachw1 reachw2 reachw3)

section \<open>Release\<close>

lemma processQueue_empty: "queue s = [] \<Longrightarrow> processQueue env s = s"
  by (simp add: processQueue_def)

lemma processQueue_none: "findAvailableBrowser s = None \<Longrightarrow> processQueue env s = s"
  by (simp add: processQueue_def split: list.split)

lemma queue_decrement: "queue (decrement bid s) = queue s"
  by (simp add: decrement_def)

lemma cleanup_empty_queue:
  "queue s = [] \<Longrightarrow> cleanup env bid s = decrement bid s"
  by (simp add: cleanup_def processQueue_empty queue_decrement)

text \<open>
  C2 (as amended). The \<open>cleanup\<close> of a lease has no one-shot guard: every call of it, the
  first and any repeated one alike, sets the owning instance's lease-count to
  \<open>max 0 (count - 1)\<close> and then runs \<open>processQueue\<close>; with nothing queued, one call leaves
  \<open>max 0 (count - 1)\<close> and two calls leave \<open>max 0 (count - 2)\<close>. Under any sequence of
  acquire, release and repeated-release calls, from a new pool or from any state whose
  counts are not negative, no lease-count goes below zero.
\<close>

theorem cleanup_decrements:
  "leaseCount (decrement bid s) bid = max 0 (leaseCount s bid - 1)
   \<and> cleanup env bid s = processQueue env (decrement bid s)
   \<and> (queue s = [] \<longrightarrow>
        leaseCount (cleanup env bid s) bid = max 0 (leaseCount s bid - 1)
        \<and> leaseCount (cleanup env2 bid (cleanup env bid s)) bid = max 0 (leaseCount s bid - 2))
   \<and> countsNonNegative (newPool mn mx ctxs)
   \<and> (countsNonNegative s \<longrightarrow> countsNonNegative (poolRun calls s))
   \<and> (\<forall>b. 0 \<le> leaseCount (poolRun calls (newPool mn mx ctxs)) b)"
proof -
  have a: "queue s = [] \<longrightarrow>
        leaseCount (cleanup env bid s) bid = max 0 (leaseCount s bid - 1)
        \<and> leaseCount (cleanup env2 bid (cleanup env bid s)) bid = max 0 (leaseCount s bid - 2)"
    by (auto simp: cleanup_empty_queue queue_decrement leaseCount_decrement)
  have b: "\<forall>b. 0 \<le> leaseCount (poolRun calls (newPool mn mx ctxs)) b"
    using nonneg_poolRun [OF nonneg_newPool, of calls mn mx ctxs]
    by (simp add: countsNonNegative_def)
  have c: "leaseCount (decrement bid s) bid = max 0 (leaseCount s bid - 1)"
    by (simp add: leaseCount_decrement)
  have d: "cleanup env bid s = processQueue env (decrement bid s)"
    by (simp add: cleanup_def)
  have e: "countsNonNegative s \<longrightarrow> countsNonNegative (poolRun calls s)"
    using nonneg_poolRun [of s calls] by blast
  show ?thesis
    using a b c d e nonneg_newPool [of mn mx ctxs] by (intro conjI)
qed

text \<open>The sample pool has one lease out and nothing queued.\<close>

theorem cleanup_decrements_witness:
  "queue sample_pool = []
   \<and> countsNonNegative sample_pool
   \<and> leaseCount sample_pool ''b1'' = 1
   \<and> leaseCount (cleanup sample_env ''b1'' sample_pool) ''b1'' = 0
   \<and> leaseCount (cleanup sample_env ''b1'' (cleanup sample_env ''b1'' sample_pool)) ''b1'' = 0
   \<and> countsNonNegative (poolRun [(sample_env, Release ''b1''), (sample_env, Release ''b1'')]
        sample_pool)"
proof -
  have q: "queue sample_pool = []" by (simp add: sample_pool_def)
  have n: "countsNonNegative sample_pool"
    by (simp add: sample_pool_def countsNonNegative_def leaseCount_def)
  have l: "leaseCount sample_pool ''b1'' = 1" by (simp add: sample_pool_def leaseCount_def)
  have t: "leaseCount (cleanup sample_env ''b1'' sample_pool) ''b1''
             = max 0 (leaseCount sample_pool ''b1'' - 1)
           \<and> leaseCount (cleanup sample_env ''b1'' (cleanup sample_env ''b1'' sample_pool)) ''b1''
             = max 0 (leaseCount sample_pool ''b1'' - 2)
           \<and> countsNonNegative (poolRun [(sample_env, Release ''b1''),
                 (sample_env, Release ''b1'')] sample_pool)"
    using q n cleanup_decrements [where bid="''b1''" and s=sample_pool and env=sample_env
      and ?env2.0=sample_env and mn=1 and mx=1 and ctxs=2
      and calls="[(sample_env, Release ''b1''), (sample_env, Release ''b1'')]"]
    by blast
  show ?thesis using q n l t by simp
qed

text \<open>
  C2 as stated fails: two acquisitions take two leases on the one browser, the first lease
  is released (count 1), and releasing that lease a second time brings the count to 0 while
  the second lease is still out.
\<close>

theorem cleanup_twice_counterexample:
  "leaseCount (poolRun [(sample_env, Acquire 11 sample_options),
                        (sample_env, Acquire 12 sample_options),
                        (sample_env, Release ''b1'')] (newPool 1 1 2)) ''b1'' = 1
   \<and> leaseCount (poolRun [(sample_env, Acquire 11 sample_options),
                          (sample_env, Acquire 12 sample_options),
                          (sample_env, Release ''b1''),
                          (sample_env, Release ''b1'')] (newPool 1 1 2)) ''b1'' = 0"
  by (simp add: poolRun_Cons poolRun_Nil reach1 reach2 reach3 reach4)
     (simp add: sample_pool_def leaseCount_def)

section \<open>Draining the queue\<close>

lemma settled_decrement: "settled (decrement bid s) = settled s"
  by (simp add: decrement_def)

lemma queue_settle: "queue (settle pid outcome s) = queue s"
  by (simp add: settle_def)

lemma settled_settle:
  "settled (settle pid outcome s)
   = (if pid \<in> set (map fst (settled s)) then settled s else settled s @ [(pid, outcome)])"
  by (simp add: settle_def)

lemma settle_mem: "pid \<in> set (map fst (settled (settle pid outcome s)))"
  by (simp add: settle_def)

lemma queue_createContextFromInstance:
  "queue (snd (createContextFromInstance env inst opts s)) = queue s"
  "settled (snd (createContextFromInstance env inst opts s)) = settled s"
  by (simp_all add: createContextFromInstance_def Let_def reserve_def decrement_def
        split: sum.split)

lemma processQueue_head:
  assumes "queue s = item # rest" "findAvailableBrowser s = Some inst"
  shows "queue (processQueue env s) = rest"
    and "promise_id item \<in> set (map fst (settled (processQueue env s)))"
proof -
  let ?s1 = "s\<lparr>queue := rest, timers := removeAll (promise_id item) (timers s)\<rparr>"
  obtain r s' where c: "createContextFromInstance env inst (item_options item) ?s1 = (r, s')"
    by (cases "createContextFromInstance env inst (item_options item) ?s1")
  have q: "queue s' = rest"
    using queue_createContextFromInstance(1) [of env inst "item_options item" ?s1] c by simp
  show "queue (processQueue env s) = rest"
    using assms c q by (cases r) (simp_all add: processQueue_def queue_settle)
  show "promise_id item \<in> set (map fst (settled (processQueue env s)))"
    using assms c by (cases r) (simp_all only: processQueue_def list.case option.case
        prod.case sum.case settle_mem)
qed

lemma processQueue_head_fails:
  assumes "queue s = item # rest" "findAvailableBrowser s = Some inst"
    and "createContext
           (engine env (reserve env (instance_id inst)
              (s\<lparr>queue := rest, timers := removeAll (promise_id item) (timers s)\<rparr>)))
           \<lparr>options_browser = acquire_browser (item_options item),
             options_proxy = acquire_proxy (item_options item)\<rparr> = Inl e"
  shows "processQueue env s
         = settle (promise_id item) (RejectedWith e)
             (decrement (instance_id inst) (reserve env (instance_id inst)
                (s\<lparr>queue := rest, timers := removeAll (promise_id item) (timers s)\<rparr>)))"
  using assms createContextFromInstance_fails [OF assms(3)]
  by (simp add: processQueue_def)

lemma processQueue_one:
  "queue (processQueue env s) = queue s \<or> queue (processQueue env s) = tl (queue s)"
proof (cases "queue s")
  case Nil
  then show ?thesis by (simp add: processQueue_def)
next
  case (Cons item rest)
  then show ?thesis
  proof (cases "findAvailableBrowser s")
    case None
    then show ?thesis by (simp add: processQueue_none)
  next
    case (Some inst)
    then show ?thesis using processQueue_head(1) [OF Cons Some] Cons by simp
  qed
qed

text \<open>
  C4 (as amended). When \<open>processQueue\<close> dequeues the head pending acquisition and the
  context creation for it fails, that pending acquisition is rejected with the error, the
  lease-count of the instance is back at its prior value floored at zero, and the rest of
  the queue stays queued in its order: one call of \<open>processQueue\<close> takes at most one
  acquisition off the queue, and it does not call itself again.
\<close>

theorem processQueue_rejects_head:
  assumes "queue s = item # rest" "findAvailableBrowser s = Some inst"
    and "createContext
           (engine env (reserve env (instance_id inst)
              (s\<lparr>queue := rest, timers := removeAll (promise_id item) (timers s)\<rparr>)))
           \<lparr>options_browser = acquire_browser (item_options item),
             options_proxy = acquire_proxy (item_options item)\<rparr> = Inl e"
    and "promise_id item \<notin> set (map fst (settled s))"
  shows "settled (processQueue env s) = settled s @ [(promise_id item, RejectedWith e)]
       \<and> queue (processQueue env s) = rest
       \<and> leaseCount (processQueue env s) (instance_id inst)
           = max 0 (leaseCount s (instance_id inst))
       \<and> (queue (processQueue env2 s2) = queue s2
            \<or> queue (processQueue env2 s2) = tl (queue s2))"
proof -
  have p: "processQueue env s
         = settle (promise_id item) (RejectedWith e)
             (decrement (instance_id inst) (reserve env (instance_id inst)
                (s\<lparr>queue := rest, timers := removeAll (promise_id item) (timers s)\<rparr>)))"
    using assms(1-3) by (rule processQueue_head_fails)
  have a: "settled (processQueue env s) = settled s @ [(promise_id item, RejectedWith e)]"
    using assms(4) by (simp add: p settled_settle decrement_def reserve_def)
  have b: "queue (processQueue env s) = rest"
    using processQueue_head(1) [OF assms(1,2)] .
  have c: "leaseCount (processQueue env s) (instance_id inst)
           = max 0 (leaseCount s (instance_id inst))"
    by (simp add: p leaseCount_settle leaseCount_decrement leaseCount_reserve)
       (simp add: leaseCount_def)
  show ?thesis using a b c processQueue_one [of env2 s2] by (intro conjI)
qed

text \<open>
  The pool with two queued acquisitions, at the moment the lease is released, with an engine
  that throws as long as a request is queued.
\<close>

theorem processQueue_rejects_head_witness:
  "queue (decrement ''b1'' waiting_pool)
     = \<lparr>promise_id = 12, item_options = sample_options\<rparr>
       # [\<lparr>promise_id = 13, item_options = sample_options\<rparr>]
   \<and> findAvailableBrowser (decrement ''b1'' waiting_pool) = Some sample_instance
   \<and> createContext
         (engine busy_env (reserve busy_env (instance_id sample_instance)
            (decrement ''b1'' waiting_pool
               \<lparr>queue := [\<lparr>promise_id = 13, item_options = sample_options\<rparr>],
                 timers := removeAll
                   (promise_id \<lparr>promise_id = 12, item_options = sample_options\<rparr>)
                   (timers (decrement ''b1'' waiting_pool))\<rparr>)))
         \<lparr>options_browser = acquire_browser
             (item_options \<lparr>promise_id = 12, item_options = sample_options\<rparr>),
           options_proxy = acquire_proxy
             (item_options \<lparr>promise_id = 12, item_options = sample_options\<rparr>)\<rparr>
       = Inl ''Target closed''
   \<and> promise_id \<lparr>promise_id = 12, item_options = sample_options\<rparr>
       \<notin> set (map fst (settled (decrement ''b1'' waiting_pool)))
   \<and> settled (processQueue busy_env (decrement ''b1'' waiting_pool))
       = [(12, RejectedWith ''Target closed'')]
   \<and> queue (processQueue busy_env (decrement ''b1'' waiting_pool))
       = [\<lparr>promise_id = 13, item_options = sample_options\<rparr>]
   \<and> leaseCount (processQueue busy_env (decrement ''b1'' waiting_pool)) ''b1'' = 0"
proof -
  have h1: "queue (decrement ''b1'' waiting_pool)
     = \<lparr>promise_id = 12, item_options = sample_options\<rparr>
       # [\<lparr>promise_id = 13, item_options = sample_options\<rparr>]"
    by (simp add: decrement_def waiting_pool_def)
  have h2: "findAvailableBrowser (decrement ''b1'' waiting_pool) = Some sample_instance"
    by (simp add: pool_eval waiting_pool_def)
  have h3: "createContext
         (engine busy_env (reserve busy_env (instance_id sample_instance)
            (decrement ''b1'' waiting_pool
               \<lparr>queue := [\<lparr>promise_id = 13, item_options = sample_options\<rparr>],
                 timers := removeAll
                   (promise_id \<lparr>promise_id = 12, item_options = sample_options\<rparr>)
                   (timers (decrement ''b1'' waiting_pool))\<rparr>)))
         \<lparr>options_browser = acquire_browser
             (item_options \<lparr>promise_id = 12, item_options = sample_options\<rparr>),
           options_proxy = acquire_proxy
             (item_options \<lparr>promise_id = 12, item_options = sample_options\<rparr>)\<rparr>
       = Inl ''Target closed''"
    by (simp add: pool_eval waiting_pool_def)
  have h4: "promise_id \<lparr>promise_id = 12, item_options = sample_options\<rparr>
       \<notin> set (map fst (settled (decrement ''b1'' waiting_pool)))"
    by (simp add: decrement_def waiting_pool_def)
  have l: "leaseCount (decrement ''b1'' waiting_pool) ''b1'' = 0"
    by (simp add: decrement_def waiting_pool_def leaseCount_def)
  have st: "settled (decrement ''b1'' waiting_pool) = []"
    by (simp add: decrement_def waiting_pool_def)
  from processQueue_rejects_head [OF h1 h2 h3 h4, of busy_env "decrement ''b1'' waiting_pool"]
  show ?thesis using h1 h2 h3 h4 l st by (simp add: sample_instance_def)
qed

text \<open>
  C4 as stated fails: after three acquisitions on a pool of one browser and one context,
  two are queued. The lease is released while the engine throws for the first of them: it
  is rejected, the second stays queued although the browser has a free slot, and nothing
  serves it; one more call of \<open>processQueue\<close> would have.
\<close>

theorem processQueue_stops_counterexample:
  "poolRun [(sample_env, Acquire 11 sample_options), (sample_env, Acquire 12 sample_options),
            (sample_env, Acquire 13 sample_options)] (newPool 1 1 1) = waiting_pool
   \<and> queue (cleanup busy_env ''b1'' waiting_pool)
       = [\<lparr>promise_id = 13, item_options = sample_options\<rparr>]
   \<and> settled (cleanup busy_env ''b1'' waiting_pool) = [(12, RejectedWith ''Target closed'')]
   \<and> findAvailableBrowser (cleanup busy_env ''b1'' waiting_pool)
       = Some (sample_instance\<lparr>lastUsedAt := 3000\<rparr>)
   \<and> map fst (settled (processQueue busy_env (cleanup busy_env ''b1'' waiting_pool))) = [12, 13]"
proof -
  have c: "cleanup busy_env ''b1'' waiting_pool
           = waiting_pool\<lparr>instances := [(''b1'', sample_instance\<lparr>lastUsedAt := 3000\<rparr>)],
               contextCounts := [''b1'' \<mapsto> 0],
               queue := [\<lparr>promise_id = 13, item_options = sample_options\<rparr>],
               timers := [13],
               settled := [(12, RejectedWith ''Target closed'')]\<rparr>"
    by (simp add: pool_eval waiting_pool_def Let_def)
  have p: "map fst (settled (processQueue busy_env
             (waiting_pool\<lparr>instances := [(''b1'', sample_instance\<lparr>lastUsedAt := 3000\<rparr>)],
               contextCounts := [''b1'' \<mapsto> 0],
               queue := [\<lparr>promise_id = 13, item_options = sample_options\<rparr>],
               timers := [13],
               settled := [(12, RejectedWith ''Target closed'')]\<rparr>))) = [12, 13]"
    by (simp add: pool_eval waiting_pool_def Let_def)
  have p': "map fst (settled (processQueue busy_env (cleanup busy_env ''b1'' waiting_pool)))
            = [12, 13]"
    unfolding c by (rule p)
  have q: "queue (cleanup busy_env ''b1'' waiting_pool)
       = [\<lparr>promise_id = 13, item_options = sample_options\<rparr>]
   \<and> settled (cleanup busy_env ''b1'' waiting_pool) = [(12, RejectedWith ''Target closed'')]
   \<and> findAvailableBrowser (cleanup busy_env ''b1'' waiting_pool)
       = Some (sample_instance\<lparr>lastUsedAt := 3000\<rparr>)"
    by (simp add: pool_eval waiting_pool_def Let_def)
  show ?thesis
    using reach_waiting_pool p' q by blast
qed

section \<open>When the queue is processed\<close>

lemma waiting_addBrowser:
  "queue (snd (addBrowser ok uid now s)) = queue s"
  "settled (snd (addBrowser ok uid now s)) = settled s"
  by (simp_all add: addBrowser_def Let_def)

lemma waiting_launchBrowser:
  "queue (snd (launchBrowser env s)) = queue s"
  "settled (snd (launchBrowser env s)) = settled s"
  by (simp_all add: launchBrowser_def waiting_addBrowser)

lemma waiting_fold_addBrowser:
  "queue (fold (\<lambda>i s'. snd (addBrowser (f i) (g i) now s')) ns s) = queue s
   \<and> settled (fold (\<lambda>i s'. snd (addBrowser (f i) (g i) now s')) ns s) = settled s"
  by (induction ns arbitrary: s) (simp_all add: waiting_addBrowser)

lemma waiting_initialize:
  "queue (initialize env s) = queue s"
  "settled (initialize env s) = settled s"
  using waiting_fold_addBrowser [of "\<lambda>i. fst (initial env i)" "\<lambda>i. snd (initial env i)"
      "clock env" "[0 ..< nat (minBrowsers s)]" s]
  by (simp_all add: initialize_def)

lemma waiting_handleBrowserDisconnect:
  "queue (handleBrowserDisconnect env bid s) = queue s"
  "settled (handleBrowserDisconnect env bid s) = settled s"
  by (simp_all add: handleBrowserDisconnect_def Let_def waiting_launchBrowser)

lemma timers_decrement: "timers (decrement bid s) = timers s"
  by (simp add: decrement_def)

lemma processQueue_head_succeeds:
  assumes "queue s = item # rest" "findAvailableBrowser s = Some inst"
    and "createContext
           (engine env (reserve env (instance_id inst)
              (s\<lparr>queue := rest, timers := removeAll (promise_id item) (timers s)\<rparr>)))
           \<lparr>options_browser = acquire_browser (item_options item),
             options_proxy = acquire_proxy (item_options item)\<rparr> = Inr cc"
  shows "processQueue env s
         = settle (promise_id item) (ResolvedWith (leaseOf cc (instance_id inst)))
             (reserve env (instance_id inst)
                (s\<lparr>queue := rest, timers := removeAll (promise_id item) (timers s)\<rparr>))"
  using assms createContextFromInstance_succeeds [OF assms(3)]
  by (simp add: processQueue_def)

lemma cleanup_head_succeeds:
  assumes "queue s = item # rest" "findAvailableBrowser (decrement bid s) = Some inst"
    and "createContext
           (engine env (reserve env (instance_id inst)
              ((decrement bid s)\<lparr>queue := rest,
                 timers := removeAll (promise_id item) (timers s)\<rparr>)))
           \<lparr>options_browser = acquire_browser (item_options item),
             options_proxy = acquire_proxy (item_options item)\<rparr> = Inr cc"
  shows "cleanup env bid s
         = settle (promise_id item) (ResolvedWith (leaseOf cc (instance_id inst)))
             (reserve env (instance_id inst)
                ((decrement bid s)\<lparr>queue := rest,
                   timers := removeAll (promise_id item) (timers s)\<rparr>))"
    and "promise_id item \<notin> set (map fst (settled s)) \<longrightarrow>
           settled (cleanup env bid s)
           = settled s @ [(promise_id item, ResolvedWith (leaseOf cc (instance_id inst)))]"
    and "leaseCount (cleanup env bid s) (instance_id inst)
         = leaseCount (decrement bid s) (instance_id inst) + 1"
proof -
  have q: "queue (decrement bid s) = item # rest"
    using assms(1) by (simp add: queue_decrement)
  have c: "createContext
           (engine env (reserve env (instance_id inst)
              ((decrement bid s)\<lparr>queue := rest,
                 timers := removeAll (promise_id item) (timers (decrement bid s))\<rparr>)))
           \<lparr>options_browser = acquire_browser (item_options item),
             options_proxy = acquire_proxy (item_options item)\<rparr> = Inr cc"
    using assms(3) by (simp add: timers_decrement)
  have p: "cleanup env bid s
         = settle (promise_id item) (ResolvedWith (leaseOf cc (instance_id inst)))
             (reserve env (instance_id inst)
                ((decrement bid s)\<lparr>queue := rest,
                   timers := removeAll (promise_id item) (timers s)\<rparr>))"
    using processQueue_head_succeeds [OF q assms(2) c]
    by (simp add: cleanup_def timers_decrement)
  show "cleanup env bid s
         = settle (promise_id item) (ResolvedWith (leaseOf cc (instance_id inst)))
             (reserve env (instance_id inst)
                ((decrement bid s)\<lparr>queue := rest,
                   timers := removeAll (promise_id item) (timers s)\<rparr>))"
    by (rule p)
  show "promise_id item \<notin> set (map fst (settled s)) \<longrightarrow>
           settled (cleanup env bid s)
           = settled s @ [(promise_id item, ResolvedWith (leaseOf cc (instance_id inst)))]"
    by (simp add: p settled_settle reserve_def decrement_def)
  show "leaseCount (cleanup env bid s) (instance_id inst)
         = leaseCount (decrement bid s) (instance_id inst) + 1"
    by (simp add: p leaseCount_settle leaseCount_reserve) (simp add: leaseCount_def)
qed

lemma cleanup_head_fails:
  assumes "queue s = item # rest" "findAvailableBrowser (decrement bid s) = Some inst"
    and "createContext
           (engine env (reserve env (instance_id inst)
              ((decrement bid s)\<lparr>queue := rest,
                 timers := removeAll (promise_id item) (timers s)\<rparr>)))
           \<lparr>options_browser = acquire_browser (item_options item),
             options_proxy = acquire_proxy (item_options item)\<rparr> = Inl e"
  shows "cleanup env bid s
         = settle (promise_id item) (RejectedWith e)
             (decrement (instance_id inst) (reserve env (instance_id inst)
                ((decrement bid s)\<lparr>queue := rest,
                   timers := removeAll (promise_id item) (timers s)\<rparr>)))"
    and "promise_id item \<notin> set (map fst (settled s)) \<longrightarrow>
           settled (cleanup env bid s) = settled s @ [(promise_id item, RejectedWith e)]"
proof -
  have q: "queue (decrement bid s) = item # rest"
    using assms(1) by (simp add: queue_decrement)
  have c: "createContext
           (engine env (reserve env (instance_id inst)
              ((decrement bid s)\<lparr>queue := rest,
                 timers := removeAll (promise_id item) (timers (decrement bid s))\<rparr>)))
           \<lparr>options_browser = acquire_browser (item_options item),
             options_proxy = acquire_proxy (item_options item)\<rparr> = Inl e"
    using assms(3) by (simp add: timers_decrement)
  have p: "cleanup env bid s
         = settle (promise_id item) (RejectedWith e)
             (decrement (instance_id inst) (reserve env (instance_id inst)
                ((decrement bid s)\<lparr>queue := rest,
                   timers := removeAll (promise_id item) (timers s)\<rparr>)))"
    using processQueue_head_fails [OF q assms(2) c]
    by (simp add: cleanup_def timers_decrement)
  show "cleanup env bid s
         = settle (promise_id item) (RejectedWith e)
             (decrement (instance_id inst) (reserve env (instance_id inst)
                ((decrement bid s)\<lparr>queue := rest,
                   timers := removeAll (promise_id item) (timers s)\<rparr>)))"
    by (rule p)
  show "promise_id item \<notin> set (map fst (settled s)) \<longrightarrow>
           settled (cleanup env bid s) = settled s @ [(promise_id item, RejectedWith e)]"
    by (simp add: p settled_settle reserve_def decrement_def)
qed

lemma snd_served: "snd (served r) = snd r"
  by (cases r) (simp add: served_def split: sum.split)

lemma waiting_waitForAvailable: "settled (waitForAvailable pid opts s) = settled s"
  by (simp add: waitForAvailable_def)

lemma acquire_settled: "settled (snd (acquire env pid opts s)) = settled s"
proof (cases "isShuttingDown s")
  case True
  then show ?thesis by (simp add: acquire_def)
next
  case False
  show ?thesis
  proof (cases "findAvailableBrowser (initialize env s)")
    case (Some inst)
    then show ?thesis using False
      by (simp add: acquire_def Let_def snd_served queue_createContextFromInstance
            waiting_initialize)
  next
    case None
    obtain r s1 where l: "launchBrowser env (initialize env s) = (r, s1)"
      by (cases "launchBrowser env (initialize env s)")
    have s1: "settled s1 = settled s"
      using waiting_launchBrowser(2) [of env "initialize env s"] l
      by (simp add: waiting_initialize)
    show ?thesis using False None l s1
      by (cases r) (simp_all add: acquire_def Let_def snd_served
            queue_createContextFromInstance waiting_initialize waiting_waitForAvailable)
  qed
qed

lemma acquire_launched:
  assumes "\<not> isShuttingDown s" "findAvailableBrowser (initialize env s) = None"
    and "poolSize (initialize env s) < maxBrowsers (initialize env s)"
    and "launchBrowser env (initialize env s) = (Some inst, s1)"
  shows "acquire env pid opts s = served (createContextFromInstance env inst opts s1)"
    and "queue (snd (acquire env pid opts s)) = queue s"
    and "createContext (engine env (reserve env (instance_id inst) s1))
           \<lparr>options_browser = acquire_browser opts, options_proxy = acquire_proxy opts\<rparr> = Inr cc
         \<longrightarrow> acquire env pid opts s
             = (Leased (leaseOf cc (instance_id inst)), reserve env (instance_id inst) s1)"
proof -
  have a: "acquire env pid opts s = served (createContextFromInstance env inst opts s1)"
    using assms by (simp add: acquire_def Let_def)
  have q: "queue s1 = queue s"
    using waiting_launchBrowser(1) [of env "initialize env s"] assms(4)
    by (simp add: waiting_initialize)
  show "acquire env pid opts s = served (createContextFromInstance env inst opts s1)"
    by (rule a)
  show "queue (snd (acquire env pid opts s)) = queue s"
    by (simp add: a snd_served queue_createContextFromInstance q)
  show "createContext (engine env (reserve env (instance_id inst) s1))
           \<lparr>options_browser = acquire_browser opts, options_proxy = acquire_proxy opts\<rparr> = Inr cc
         \<longrightarrow> acquire env pid opts s
             = (Leased (leaseOf cc (instance_id inst)), reserve env (instance_id inst) s1)"
    by (simp add: a createContextFromInstance_succeeds served_def)
qed

text \<open>
  C1 (as amended). Every lease release runs \<open>processQueue\<close> after the decrement. When a
  request is queued and an instance has a free slot, the head pending acquisition is dequeued
  and served on that instance: if the context creation succeeds its promise is resolved with
  the lease on that instance, whose count then is one more than after the decrement, and if
  the context creation fails its promise is rejected with the error. Otherwise nothing but
  the count changes. A browser launch does not call \<open>processQueue\<close>: \<open>launchBrowser\<close>, and
  with it the launches of \<open>initialize\<close> and the replacement launch after a disconnect, leave
  the queue and the settled promises as they are; \<open>acquire\<close> settles no queued promise, and
  the instance it launches serves the caller of \<open>acquire\<close>, the queue staying as it is.
\<close>

theorem cleanup_calls_processQueue:
  "cleanup env bid s = processQueue env (decrement bid s)
   \<and> (queue s = item # rest \<and> findAvailableBrowser (decrement bid s) = Some inst
       \<longrightarrow> queue (cleanup env bid s) = rest
         \<and> promise_id item \<in> set (map fst (settled (cleanup env bid s))))
   \<and> (queue s = [] \<or> findAvailableBrowser (decrement bid s) = None
       \<longrightarrow> cleanup env bid s = decrement bid s)
   \<and> queue (snd (launchBrowser env s)) = queue s
   \<and> settled (snd (launchBrowser env s)) = settled s
   \<and> queue (initialize env s) = queue s
   \<and> settled (initialize env s) = settled s
   \<and> queue (handleBrowserDisconnect env bid s) = queue s
   \<and> settled (handleBrowserDisconnect env bid s) = settled s
   \<and> (queue s = item # rest \<and> findAvailableBrowser (decrement bid s) = Some inst
       \<and> createContext
           (engine env (reserve env (instance_id inst)
              ((decrement bid s)\<lparr>queue := rest,
                 timers := removeAll (promise_id item) (timers s)\<rparr>)))
           \<lparr>options_browser = acquire_browser (item_options item),
             options_proxy = acquire_proxy (item_options item)\<rparr> = Inr cc
       \<longrightarrow> cleanup env bid s
           = settle (promise_id item) (ResolvedWith (leaseOf cc (instance_id inst)))
               (reserve env (instance_id inst)
                  ((decrement bid s)\<lparr>queue := rest,
                     timers := removeAll (promise_id item) (timers s)\<rparr>))
         \<and> (promise_id item \<notin> set (map fst (settled s)) \<longrightarrow>
               settled (cleanup env bid s)
               = settled s @ [(promise_id item, ResolvedWith (leaseOf cc (instance_id inst)))])
         \<and> leaseCount (cleanup env bid s) (instance_id inst)
             = leaseCount (decrement bid s) (instance_id inst) + 1)
   \<and> (queue s = item # rest \<and> findAvailableBrowser (decrement bid s) = Some inst
       \<and> createContext
           (engine env (reserve env (instance_id inst)
              ((decrement bid s)\<lparr>queue := rest,
                 timers := removeAll (promise_id item) (timers s)\<rparr>)))
           \<lparr>options_browser = acquire_browser (item_options item),
             options_proxy = acquire_proxy (item_options item)\<rparr> = Inl e
       \<longrightarrow> cleanup env bid s
           = settle (promise_id item) (RejectedWith e)
               (decrement (instance_id inst) (reserve env (instance_id inst)
                  ((decrement bid s)\<lparr>queue := rest,
                     timers := removeAll (promise_id item) (timers s)\<rparr>)))
         \<and> (promise_id item \<notin> set (map fst (settled s)) \<longrightarrow>
               settled (cleanup env bid s) = settled s @ [(promise_id item, RejectedWith e)]))
   \<and> settled (snd (acquire env pid opts s)) = settled s
   \<and> (\<not> isShuttingDown s \<and> findAvailableBrowser (initialize env s) = None
       \<and> poolSize (initialize env s) < maxBrowsers (initialize env s)
       \<and> launchBrowser env (initialize env s) = (Some linst, sl)
       \<longrightarrow> acquire env pid opts s = served (createContextFromInstance env linst opts sl)
         \<and> queue (snd (acquire env pid opts s)) = queue s
         \<and> (createContext (engine env (reserve env (instance_id linst) sl))
               \<lparr>options_browser = acquire_browser opts, options_proxy = acquire_proxy opts\<rparr>
             = Inr lcc
             \<longrightarrow> acquire env pid opts s
                 = (Leased (leaseOf lcc (instance_id linst)),
                    reserve env (instance_id linst) sl)))"
proof -
  have a: "queue s = item # rest \<and> findAvailableBrowser (decrement bid s) = Some inst
       \<longrightarrow> queue (cleanup env bid s) = rest
         \<and> promise_id item \<in> set (map fst (settled (cleanup env bid s)))"
    using processQueue_head [of "decrement bid s" item rest inst env]
    by (simp add: cleanup_def queue_decrement)
  have b: "queue s = [] \<or> findAvailableBrowser (decrement bid s) = None
       \<longrightarrow> cleanup env bid s = decrement bid s"
    using processQueue_empty [of "decrement bid s" env]
      processQueue_none [of "decrement bid s" env]
    by (auto simp: cleanup_def queue_decrement)
  have c: "cleanup env bid s = processQueue env (decrement bid s)"
    by (simp add: cleanup_def)
  have d: "queue s = item # rest \<and> findAvailableBrowser (decrement bid s) = Some inst
       \<and> createContext
           (engine env (reserve env (instance_id inst)
              ((decrement bid s)\<lparr>queue := rest,
                 timers := removeAll (promise_id item) (timers s)\<rparr>)))
           \<lparr>options_browser = acquire_browser (item_options item),
             options_proxy = acquire_proxy (item_options item)\<rparr> = Inr cc
       \<longrightarrow> cleanup env bid s
           = settle (promise_id item) (ResolvedWith (leaseOf cc (instance_id inst)))
               (reserve env (instance_id inst)
                  ((decrement bid s)\<lparr>queue := rest,
                     timers := removeAll (promise_id item) (timers s)\<rparr>))
         \<and> (promise_id item \<notin> set (map fst (settled s)) \<longrightarrow>
               settled (cleanup env bid s)
               = settled s @ [(promise_id item, ResolvedWith (leaseOf cc (instance_id inst)))])
         \<and> leaseCount (cleanup env bid s) (instance_id inst)
             = leaseCount (decrement bid s) (instance_id inst) + 1"
    using cleanup_head_succeeds [of s item rest bid inst env cc] by blast
  have f: "queue s = item # rest \<and> findAvailableBrowser (decrement bid s) = Some inst
       \<and> createContext
           (engine env (reserve env (instance_id inst)
              ((decrement bid s)\<lparr>queue := rest,
                 timers := removeAll (promise_id item) (timers s)\<rparr>)))
           \<lparr>options_browser = acquire_browser (item_options item),
             options_proxy = acquire_proxy (item_options item)\<rparr> = Inl e
       \<longrightarrow> cleanup env bid s
           = settle (promise_id item) (RejectedWith e)
               (decrement (instance_id inst) (reserve env (instance_id inst)
                  ((decrement bid s)\<lparr>queue := rest,
                     timers := removeAll (promise_id item) (timers s)\<rparr>)))
         \<and> (promise_id item \<notin> set (map fst (settled s)) \<longrightarrow>
               settled (cleanup env bid s) = settled s @ [(promise_id item, RejectedWith e)])"
    using cleanup_head_fails [of s item rest bid inst env e] by blast
  have g: "settled (snd (acquire env pid opts s)) = settled s"
    by (rule acquire_settled)
  have h: "\<not> isShuttingDown s \<and> findAvailableBrowser (initialize env s) = None
       \<and> poolSize (initialize env s) < maxBrowsers (initialize env s)
       \<and> launchBrowser env (initialize env s) = (Some linst, sl)
       \<longrightarrow> acquire env pid opts s = served (createContextFromInstance env linst opts sl)
         \<and> queue (snd (acquire env pid opts s)) = queue s
         \<and> (createContext (engine env (reserve env (instance_id linst) sl))
               \<lparr>options_browser = acquire_browser opts, options_proxy = acquire_proxy opts\<rparr>
             = Inr lcc
             \<longrightarrow> acquire env pid opts s
                 = (Leased (leaseOf lcc (instance_id linst)),
                    reserve env (instance_id linst) sl))"
    using acquire_launched(1,2) [of s env linst sl pid opts]
      acquire_launched(3) [where s=s and env=env and inst=linst and ?s1.0=sl and pid=pid
        and opts=opts and cc=lcc]
    by blast
  show ?thesis
    using a b c d f g h waiting_launchBrowser [of env s] waiting_initialize [of env s]
      waiting_handleBrowserDisconnect [of env bid s]
    by (intro conjI)
qed

text \<open>
  Releasing the lease of the pool with two queued acquisitions, with an engine that succeeds
  and with one that throws, and of the sample pool; and an acquisition on the pool that has
  lost its browser, which launches a second browser and takes its slot while both queued
  requests keep waiting.
\<close>

theorem cleanup_calls_processQueue_witness:
  "queue waiting_pool = \<lparr>promise_id = 12, item_options = sample_options\<rparr>
                          # [\<lparr>promise_id = 13, item_options = sample_options\<rparr>]
   \<and> findAvailableBrowser (decrement ''b1'' waiting_pool) = Some sample_instance
   \<and> queue (cleanup sample_env ''b1'' waiting_pool)
       = [\<lparr>promise_id = 13, item_options = sample_options\<rparr>]
   \<and> promise_id \<lparr>promise_id = 12, item_options = sample_options\<rparr>
       \<in> set (map fst (settled (cleanup sample_env ''b1'' waiting_pool)))
   \<and> queue sample_pool = []
   \<and> cleanup sample_env ''b1'' sample_pool = decrement ''b1'' sample_pool
   \<and> createContext
         (engine sample_env (reserve sample_env (instance_id sample_instance)
            ((decrement ''b1'' waiting_pool)
               \<lparr>queue := [\<lparr>promise_id = 13, item_options = sample_options\<rparr>],
                 timers := removeAll (promise_id \<lparr>promise_id = 12, item_options = sample_options\<rparr>) (timers waiting_pool)\<rparr>)))
         \<lparr>options_browser = acquire_browser (item_options \<lparr>promise_id = 12, item_options = sample_options\<rparr>),
           options_proxy = acquire_proxy (item_options \<lparr>promise_id = 12, item_options = sample_options\<rparr>)\<rparr>
       = Inr \<lparr>created_context = sample_context, created_page = sample_page, proxyUsed = False\<rparr>
   \<and> promise_id \<lparr>promise_id = 12, item_options = sample_options\<rparr> \<notin> set (map fst (settled waiting_pool))
   \<and> settled (cleanup sample_env ''b1'' waiting_pool) = [(12, ResolvedWith sample_lease)]
   \<and> leaseCount (cleanup sample_env ''b1'' waiting_pool) ''b1'' = 1
   \<and> createContext
         (engine busy_env (reserve busy_env (instance_id sample_instance)
            ((decrement ''b1'' waiting_pool)
               \<lparr>queue := [\<lparr>promise_id = 13, item_options = sample_options\<rparr>],
                 timers := removeAll (promise_id \<lparr>promise_id = 12, item_options = sample_options\<rparr>) (timers waiting_pool)\<rparr>)))
         \<lparr>options_browser = acquire_browser (item_options \<lparr>promise_id = 12, item_options = sample_options\<rparr>),
           options_proxy = acquire_proxy (item_options \<lparr>promise_id = 12, item_options = sample_options\<rparr>)\<rparr>
       = Inl ''Target closed''
   \<and> settled (cleanup busy_env ''b1'' waiting_pool) = [(12, RejectedWith ''Target closed'')]
   \<and> handleBrowserDisconnect (second_env\<lparr>launched := False\<rparr>) ''b1'' waiting_pool
       = vacant_pool
   \<and> \<not> isShuttingDown vacant_pool
   \<and> findAvailableBrowser (initialize second_env vacant_pool) = None
   \<and> poolSize (initialize second_env vacant_pool) < maxBrowsers (initialize second_env vacant_pool)
   \<and> launchBrowser second_env (initialize second_env vacant_pool)
       = (Some \<lparr>instance_id = ''b2'', contextCount = 0, createdAt = 2000, lastUsedAt = 2000, isHealthy = True\<rparr>,
          vacant_pool\<lparr>instances := [(''b2'', \<lparr>instance_id = ''b2'', contextCount = 0, createdAt = 2000, lastUsedAt = 2000, isHealthy = True\<rparr>)], contextCounts := [''b2'' \<mapsto> 0]\<rparr>)
   \<and> createContext (engine second_env (reserve second_env (instance_id \<lparr>instance_id = ''b2'', contextCount = 0, createdAt = 2000, lastUsedAt = 2000, isHealthy = True\<rparr>)
          (vacant_pool\<lparr>instances := [(''b2'', \<lparr>instance_id = ''b2'', contextCount = 0, createdAt = 2000, lastUsedAt = 2000, isHealthy = True\<rparr>)], contextCounts := [''b2'' \<mapsto> 0]\<rparr>)))
        \<lparr>options_browser = acquire_browser sample_options,
          options_proxy = acquire_proxy sample_options\<rparr>
       = Inr \<lparr>created_context = sample_context, created_page = sample_page, proxyUsed = False\<rparr>
   \<and> fst (acquire second_env 17 sample_options vacant_pool)
       = Leased (sample_lease\<lparr>browserId := ''b2''\<rparr>)
   \<and> queue (snd (acquire second_env 17 sample_options vacant_pool))
       = [\<lparr>promise_id = 12, item_options = sample_options\<rparr>, \<lparr>promise_id = 13, item_options = sample_options\<rparr>]
   \<and> settled (snd (acquire second_env 17 sample_options vacant_pool)) = []"
proof -
  have h1: "queue waiting_pool = \<lparr>promise_id = 12, item_options = sample_options\<rparr>
                          # [\<lparr>promise_id = 13, item_options = sample_options\<rparr>]"
    by (simp add: waiting_pool_def)
  have h2: "findAvailableBrowser (decrement ''b1'' waiting_pool) = Some sample_instance"
    by (simp add: pool_eval waiting_pool_def)
  have h3: "queue sample_pool = []" by (simp add: sample_pool_def)
  have h4: "createContext
         (engine sample_env (reserve sample_env (instance_id sample_instance)
            ((decrement ''b1'' waiting_pool)
               \<lparr>queue := [\<lparr>promise_id = 13, item_options = sample_options\<rparr>],
                 timers := removeAll (promise_id \<lparr>promise_id = 12, item_options = sample_options\<rparr>) (timers waiting_pool)\<rparr>)))
         \<lparr>options_browser = acquire_browser (item_options \<lparr>promise_id = 12, item_options = sample_options\<rparr>),
           options_proxy = acquire_proxy (item_options \<lparr>promise_id = 12, item_options = sample_options\<rparr>)\<rparr>
       = Inr \<lparr>created_context = sample_context, created_page = sample_page, proxyUsed = False\<rparr>"
    by (simp add: pool_eval waiting_pool_def)
  have h5: "promise_id \<lparr>promise_id = 12, item_options = sample_options\<rparr> \<notin> set (map fst (settled waiting_pool))"
    by (simp add: waiting_pool_def)
  have h6: "createContext
         (engine busy_env (reserve busy_env (instance_id sample_instance)
            ((decrement ''b1'' waiting_pool)
               \<lparr>queue := [\<lparr>promise_id = 13, item_options = sample_options\<rparr>],
                 timers := removeAll (promise_id \<lparr>promise_id = 12, item_options = sample_options\<rparr>) (timers waiting_pool)\<rparr>)))
         \<lparr>options_browser = acquire_browser (item_options \<lparr>promise_id = 12, item_options = sample_options\<rparr>),
           options_proxy = acquire_proxy (item_options \<lparr>promise_id = 12, item_options = sample_options\<rparr>)\<rparr>
       = Inl ''Target closed''"
    by (simp add: pool_eval waiting_pool_def)
  have st: "settled waiting_pool = []"
    by (simp add: waiting_pool_def)
  have l: "leaseCount (decrement ''b1'' waiting_pool) ''b1'' = 0"
    by (simp add: decrement_def waiting_pool_def leaseCount_def)
  have v0: "handleBrowserDisconnect (second_env\<lparr>launched := False\<rparr>) ''b1'' waiting_pool
       = vacant_pool"
    by (simp add: pool_eval vacant_pool_def waiting_pool_def Let_def)
  have v1: "\<not> isShuttingDown vacant_pool"
    by (simp add: vacant_pool_def waiting_pool_def)
  have v2: "findAvailableBrowser (initialize second_env vacant_pool) = None"
    by (simp add: pool_eval vacant_pool_def waiting_pool_def)
  have v3: "poolSize (initialize second_env vacant_pool)
            < maxBrowsers (initialize second_env vacant_pool)"
    by (simp add: pool_eval vacant_pool_def waiting_pool_def)
  have v4: "launchBrowser second_env (initialize second_env vacant_pool)
       = (Some \<lparr>instance_id = ''b2'', contextCount = 0, createdAt = 2000, lastUsedAt = 2000, isHealthy = True\<rparr>,
          vacant_pool\<lparr>instances := [(''b2'', \<lparr>instance_id = ''b2'', contextCount = 0, createdAt = 2000, lastUsedAt = 2000, isHealthy = True\<rparr>)], contextCounts := [''b2'' \<mapsto> 0]\<rparr>)"
    by (simp add: pool_eval vacant_pool_def waiting_pool_def Let_def)
  have v5: "createContext (engine second_env (reserve second_env (instance_id \<lparr>instance_id = ''b2'', contextCount = 0, createdAt = 2000, lastUsedAt = 2000, isHealthy = True\<rparr>)
          (vacant_pool\<lparr>instances := [(''b2'', \<lparr>instance_id = ''b2'', contextCount = 0, createdAt = 2000, lastUsedAt = 2000, isHealthy = True\<rparr>)], contextCounts := [''b2'' \<mapsto> 0]\<rparr>)))
        \<lparr>options_browser = acquire_browser sample_options,
          options_proxy = acquire_proxy sample_options\<rparr>
       = Inr \<lparr>created_context = sample_context, created_page = sample_page, proxyUsed = False\<rparr>"
    by (simp add: pool_eval vacant_pool_def waiting_pool_def)
  have vq: "queue vacant_pool = [\<lparr>promise_id = 12, item_options = sample_options\<rparr>, \<lparr>promise_id = 13, item_options = sample_options\<rparr>]"
    by (simp add: vacant_pool_def waiting_pool_def)
  have vs: "settled vacant_pool = []"
    by (simp add: vacant_pool_def waiting_pool_def)
  have r1: "queue (cleanup sample_env ''b1'' waiting_pool) = [\<lparr>promise_id = 13, item_options = sample_options\<rparr>]
      \<and> promise_id \<lparr>promise_id = 12, item_options = sample_options\<rparr> \<in> set (map fst (settled (cleanup sample_env ''b1'' waiting_pool)))
      \<and> settled (cleanup sample_env ''b1'' waiting_pool)
          = settled waiting_pool
            @ [(promise_id \<lparr>promise_id = 12, item_options = sample_options\<rparr>, ResolvedWith (leaseOf \<lparr>created_context = sample_context, created_page = sample_page, proxyUsed = False\<rparr> (instance_id sample_instance)))]
      \<and> leaseCount (cleanup sample_env ''b1'' waiting_pool) (instance_id sample_instance)
          = leaseCount (decrement ''b1'' waiting_pool) (instance_id sample_instance) + 1"
    using h1 h2 h4 h5
      cleanup_calls_processQueue [where env=sample_env and bid="''b1''" and s=waiting_pool
        and item="\<lparr>promise_id = 12, item_options = sample_options\<rparr>"
        and rest="[\<lparr>promise_id = 13, item_options = sample_options\<rparr>]"
        and inst=sample_instance and cc="\<lparr>created_context = sample_context, created_page = sample_page, proxyUsed = False\<rparr>"]
    by blast
  have r2: "cleanup sample_env ''b1'' sample_pool = decrement ''b1'' sample_pool"
    using h3
      cleanup_calls_processQueue [where env=sample_env and bid="''b1''" and s=sample_pool]
    by blast
  have r3: "settled (cleanup busy_env ''b1'' waiting_pool)
          = settled waiting_pool @ [(promise_id \<lparr>promise_id = 12, item_options = sample_options\<rparr>, RejectedWith ''Target closed'')]"
    using h1 h2 h5 h6
      cleanup_calls_processQueue [where env=busy_env and bid="''b1''" and s=waiting_pool
        and item="\<lparr>promise_id = 12, item_options = sample_options\<rparr>"
        and rest="[\<lparr>promise_id = 13, item_options = sample_options\<rparr>]"
        and inst=sample_instance and e="''Target closed''"]
    by blast
  have r4: "acquire second_env 17 sample_options vacant_pool
          = (Leased (leaseOf \<lparr>created_context = sample_context, created_page = sample_page, proxyUsed = False\<rparr> (instance_id \<lparr>instance_id = ''b2'', contextCount = 0, createdAt = 2000, lastUsedAt = 2000, isHealthy = True\<rparr>)),
             reserve second_env (instance_id \<lparr>instance_id = ''b2'', contextCount = 0, createdAt = 2000, lastUsedAt = 2000, isHealthy = True\<rparr>)
               (vacant_pool\<lparr>instances := [(''b2'', \<lparr>instance_id = ''b2'', contextCount = 0, createdAt = 2000, lastUsedAt = 2000, isHealthy = True\<rparr>)], contextCounts := [''b2'' \<mapsto> 0]\<rparr>))"
    using v1 v2 v3 v4 v5
      cleanup_calls_processQueue [where env=second_env and s=vacant_pool and pid=17
        and opts=sample_options and linst="\<lparr>instance_id = ''b2'', contextCount = 0, createdAt = 2000, lastUsedAt = 2000, isHealthy = True\<rparr>"
        and sl="vacant_pool\<lparr>instances := [(''b2'', \<lparr>instance_id = ''b2'', contextCount = 0, createdAt = 2000, lastUsedAt = 2000, isHealthy = True\<rparr>)], contextCounts := [''b2'' \<mapsto> 0]\<rparr>"
        and lcc="\<lparr>created_context = sample_context, created_page = sample_page, proxyUsed = False\<rparr>"]
    by blast
  have r4b: "queue (snd (acquire second_env 17 sample_options vacant_pool)) = queue vacant_pool
      \<and> settled (snd (acquire second_env 17 sample_options vacant_pool)) = settled vacant_pool"
    using v1 v2 v3 v4 v5
      cleanup_calls_processQueue [where env=second_env and s=vacant_pool and pid=17
        and opts=sample_options and linst="\<lparr>instance_id = ''b2'', contextCount = 0, createdAt = 2000, lastUsedAt = 2000, isHealthy = True\<rparr>"
        and sl="vacant_pool\<lparr>instances := [(''b2'', \<lparr>instance_id = ''b2'', contextCount = 0, createdAt = 2000, lastUsedAt = 2000, isHealthy = True\<rparr>)], contextCounts := [''b2'' \<mapsto> 0]\<rparr>"
        and lcc="\<lparr>created_context = sample_context, created_page = sample_page, proxyUsed = False\<rparr>"]
    by blast
  have r5: "fst (acquire second_env 17 sample_options vacant_pool)
       = Leased (sample_lease\<lparr>browserId := ''b2''\<rparr>)"
    using r4 by (simp add: leaseOf_def sample_lease_def)
  have r6: "settled (cleanup sample_env ''b1'' waiting_pool) = [(12, ResolvedWith sample_lease)]
      \<and> leaseCount (cleanup sample_env ''b1'' waiting_pool) ''b1'' = 1"
    using r1 st l by (simp add: leaseOf_def sample_lease_def sample_instance_def)
  have r7: "settled (cleanup busy_env ''b1'' waiting_pool) = [(12, RejectedWith ''Target closed'')]"
    using r3 st by simp
  have r8: "queue (snd (acquire second_env 17 sample_options vacant_pool)) = [\<lparr>promise_id = 12, item_options = sample_options\<rparr>, \<lparr>promise_id = 13, item_options = sample_options\<rparr>]
      \<and> settled (snd (acquire second_env 17 sample_options vacant_pool)) = []"
    using r4b vq vs by simp
  show ?thesis
    using h1 h2 h3 h4 h5 h6 v0 v1 v2 v3 v4 v5 r1 r2 r5 r6 r7 r8 by blast
qed

text \<open>
  C1 as stated fails: with two acquisitions queued, the one browser disconnects and the pool
  launches a replacement. The launch succeeds and the new browser has a free slot, yet both
  acquisitions are still queued and none is settled.
\<close>

theorem launchBrowser_leaves_queue_counterexample:
  "poolRun [(sample_env, Acquire 11 sample_options), (sample_env, Acquire 12 sample_options),
            (sample_env, Acquire 13 sample_options)] (newPool 1 1 1) = waiting_pool
   \<and> handleBrowserDisconnect second_env ''b1'' waiting_pool
       = snd (launchBrowser second_env
                (waiting_pool\<lparr>instances := [], contextCounts := Map.empty\<rparr>))
   \<and> fst (launchBrowser second_env (waiting_pool\<lparr>instances := [], contextCounts := Map.empty\<rparr>))
       = Some \<lparr>instance_id = ''b2'', contextCount = 0, createdAt = 2000, lastUsedAt = 2000,
               isHealthy = True\<rparr>
   \<and> queue (handleBrowserDisconnect second_env ''b1'' waiting_pool)
       = [\<lparr>promise_id = 12, item_options = sample_options\<rparr>,
          \<lparr>promise_id = 13, item_options = sample_options\<rparr>]
   \<and> settled (handleBrowserDisconnect second_env ''b1'' waiting_pool) = []
   \<and> findAvailableBrowser (handleBrowserDisconnect second_env ''b1'' waiting_pool)
       = Some \<lparr>instance_id = ''b2'', contextCount = 0, createdAt = 2000, lastUsedAt = 2000,
               isHealthy = True\<rparr>"
proof -
  have a: "handleBrowserDisconnect second_env ''b1'' waiting_pool
       = snd (launchBrowser second_env
                (waiting_pool\<lparr>instances := [], contextCounts := Map.empty\<rparr>))"
    by (simp add: pool_eval waiting_pool_def Let_def)
  have b: "fst (launchBrowser second_env (waiting_pool\<lparr>instances := [], contextCounts := Map.empty\<rparr>))
       = Some \<lparr>instance_id = ''b2'', contextCount = 0, createdAt = 2000, lastUsedAt = 2000,
               isHealthy = True\<rparr>"
    by (simp add: pool_eval waiting_pool_def Let_def)
  have c: "queue (handleBrowserDisconnect second_env ''b1'' waiting_pool)
       = [\<lparr>promise_id = 12, item_options = sample_options\<rparr>,
          \<lparr>promise_id = 13, item_options = sample_options\<rparr>]
   \<and> settled (handleBrowserDisconnect second_env ''b1'' waiting_pool) = []
   \<and> findAvailableBrowser (handleBrowserDisconnect second_env ''b1'' waiting_pool)
       = Some \<lparr>instance_id = ''b2'', contextCount = 0, createdAt = 2000, lastUsedAt = 2000,
               isHealthy = True\<rparr>"
    by (simp add: pool_eval waiting_pool_def Let_def)
  show ?thesis using reach_waiting_pool a b c by blast
qed

end
